theory Spec2Isabelle
  imports Complex_Main
begin

section \<open>Freesound Speed Control: numbers, text and the rate store\<close>

text \<open>
  The user script works on JavaScript numbers. A number is modelled as the real it
  denotes, or one of the three non-finite values; \<open>-0\<close> is identified with \<open>0\<close> (the
  script never tells them apart). Every operation the rate controller performs on a
  number (\<open>Math.min\<close>, \<open>Math.max\<close>, comparison, \<open>||\<close>, \<open>Number.isFinite\<close>) returns one
  of its arguments or a boolean, so it is exact. Where a number is made from text, a
  value beyond the binary64 range becomes an infinity, as on the host; rounding inside
  the range is not modelled.
\<close>

datatype jsnum = Num real | NaN | PosInf | NegInf

fun Math_max :: "jsnum \<Rightarrow> jsnum \<Rightarrow> jsnum" where
  "Math_max NaN _ = NaN"
| "Math_max _ NaN = NaN"
| "Math_max PosInf _ = PosInf"
| "Math_max _ PosInf = PosInf"
| "Math_max NegInf y = y"
| "Math_max x NegInf = x"
| "Math_max (Num a) (Num b) = Num (max a b)"

fun Math_min :: "jsnum \<Rightarrow> jsnum \<Rightarrow> jsnum" where
  "Math_min NaN _ = NaN"
| "Math_min _ NaN = NaN"
| "Math_min NegInf _ = NegInf"
| "Math_min _ NegInf = NegInf"
| "Math_min PosInf y = y"
| "Math_min x PosInf = x"
| "Math_min (Num a) (Num b) = Num (min a b)"

fun Number_isFinite :: "jsnum \<Rightarrow> bool" where
  "Number_isFinite (Num _) = True"
| "Number_isFinite _ = False"

text \<open>\<open>const SPEEDS\<close>, \<open>MIN_RATE\<close>, \<open>MAX_RATE\<close>.\<close>

definition SPEEDS :: "real list" where
  "SPEEDS = [1/4, 1/2, 1, 2, 3, 4, 8, 12, 16]"

definition MIN_RATE :: jsnum where
  "MIN_RATE = Num (1/10)"

definition MAX_RATE :: jsnum where
  "MAX_RATE = Num 16"

text \<open>\<open>const clamp = (v, min, max) => Math.min(max, Math.max(min, v))\<close>\<close>

definition clamp :: "jsnum \<Rightarrow> jsnum \<Rightarrow> jsnum \<Rightarrow> jsnum" where
  "clamp v mn mx = Math_min mx (Math_max mn v)"

subsection \<open>The host's \<open>parseFloat\<close>\<close>

text \<open>
  A JavaScript string is the list of its UTF-16 code units. \<open>js\<close> turns an ASCII
  literal into one.
\<close>

type_synonym ustring = "nat list"

definition code_unit :: "char \<Rightarrow> nat" where
  "code_unit c = of_char c"

definition js :: "string \<Rightarrow> ustring" where
  "js s = map code_unit s"

text \<open>
  \<open>parseFloat\<close> (ECMA-262): skip leading white space (every \<open>WhiteSpace\<close> and
  \<open>LineTerminator\<close> code point: tab, line feed, vertical tab, form feed, carriage
  return, space, no-break space, the other space separators, the line and paragraph
  separators and the byte order mark), read the longest prefix that is a decimal
  literal (an optional sign, then \<open>Infinity\<close>, or digits with an optional fraction,
  or a fraction alone, then an optional exponent that counts only when it has
  digits), and return \<open>NaN\<close> when there is none. The decimal value is converted to a
  number by \<open>to_double\<close>: at or beyond \<open>2^1024 - 2^970\<close>, halfway between the
  largest binary64 value and \<open>2^1024\<close>, it rounds to an infinity; below, it is kept
  as it is.
\<close>

definition is_digit :: "nat \<Rightarrow> bool" where
  "is_digit u = (code_unit CHR ''0'' \<le> u \<and> u \<le> code_unit CHR ''9'')"

definition is_space :: "nat \<Rightarrow> bool" where
  "is_space u =
     (u \<in> set [0x09, 0x0A, 0x0B, 0x0C, 0x0D, 0x20, 0xA0, 0x1680,
                0x2000, 0x2001, 0x2002, 0x2003, 0x2004, 0x2005, 0x2006, 0x2007,
                0x2008, 0x2009, 0x200A, 0x2028, 0x2029, 0x202F, 0x205F, 0x3000,
                0xFEFF])"

definition digit_val :: "nat \<Rightarrow> nat" where
  "digit_val u = u - code_unit CHR ''0''"

definition digits_val :: "ustring \<Rightarrow> nat" where
  "digits_val ds = foldl (\<lambda>acc c. 10 * acc + digit_val c) 0 ds"

fun is_prefix :: "ustring \<Rightarrow> ustring \<Rightarrow> bool" where
  "is_prefix [] _ = True"
| "is_prefix (p # ps) [] = False"
| "is_prefix (p # ps) (c # cs) = (p = c \<and> is_prefix ps cs)"

fun read_sign :: "ustring \<Rightarrow> bool \<times> ustring" where
  "read_sign [] = (False, [])"
| "read_sign (c # cs) =
     (if c = code_unit CHR ''-'' then (True, cs)
      else if c = code_unit CHR ''+'' then (False, cs)
      else (False, c # cs))"

fun read_fraction :: "ustring \<Rightarrow> ustring \<times> ustring" where
  "read_fraction [] = ([], [])"
| "read_fraction (c # cs) =
     (if c = code_unit CHR ''.'' then (takeWhile is_digit cs, dropWhile is_digit cs)
      else ([], c # cs))"

fun read_exponent :: "ustring \<Rightarrow> int" where
  "read_exponent [] = 0"
| "read_exponent (c # cs) =
     (if c = code_unit CHR ''e'' \<or> c = code_unit CHR ''E'' then
        (let (neg, r) = read_sign cs; ds = takeWhile is_digit r
         in if ds = [] then 0
            else if neg then - int (digits_val ds) else int (digits_val ds))
      else 0)"

definition scale10 :: "real \<Rightarrow> int \<Rightarrow> real" where
  "scale10 m e = (if 0 \<le> e then m * 10 ^ nat e else m / 10 ^ nat (- e))"

definition to_double :: "real \<Rightarrow> jsnum" where
  "to_double v =
     (if 2 ^ 1024 - 2 ^ 970 \<le> \<bar>v\<bar> then (if v < 0 then NegInf else PosInf) else Num v)"

definition parseFloat :: "ustring \<Rightarrow> jsnum" where
  "parseFloat s =
     (let (neg, u) = read_sign (dropWhile is_space s) in
      if is_prefix (js ''Infinity'') u then (if neg then NegInf else PosInf)
      else
        let ip = takeWhile is_digit u;
            (fp, r) = read_fraction (dropWhile is_digit u)
        in if ip = [] \<and> fp = [] then NaN
           else
             let m = real (digits_val ip) + real (digits_val fp) / 10 ^ length fp;
                 v = scale10 m (read_exponent r)
             in to_double (if neg then - v else v))"

subsection \<open>Text held by the page\<close>

text \<open>
  A string held by \<open>localStorage\<close> or by the rate field is either literal text or the
  text \<open>String(x)\<close> of a number \<open>x\<close>. The second is kept as \<open>NumText x\<close>: the decimal
  rendering itself is not modelled, only that it is never empty and that \<open>parseFloat\<close>
  reads \<open>x\<close> back from it, which ECMA-262 guarantees for every number. The numbers
  rendered are rates the script has applied or read from an audio element.
\<close>

datatype dstring = Text ustring | NumText jsnum

fun parseFloat_text :: "dstring \<Rightarrow> jsnum" where
  "parseFloat_text (Text s) = parseFloat s"
| "parseFloat_text (NumText x) = x"

text \<open>\<open>s || d\<close> on strings: the empty string is the only falsy one.\<close>

fun text_or :: "dstring \<Rightarrow> dstring \<Rightarrow> dstring" where
  "text_or (Text s) d = (if s = [] then d else Text s)"
| "text_or (NumText x) d = NumText x"

text \<open>
  \<open>localStorage\<close> under \<open>STORE_KEY\<close>: \<open>None\<close> is an absent key (\<open>getItem\<close> returns
  \<open>null\<close>, which is falsy as well).

  \<open>const saveRate = (rate) => localStorage.setItem(STORE_KEY, String(rate))\<close>

  \<open>const loadRate = () => { const v = parseFloat(localStorage.getItem(STORE_KEY) || '1');
     return Number.isFinite(v) ? clamp(v, MIN_RATE, MAX_RATE) : 1; }\<close>
\<close>

type_synonym storage = "dstring option"

definition saveRate :: "jsnum \<Rightarrow> storage" where
  "saveRate rate = Some (NumText rate)"

definition getItem_or :: "storage \<Rightarrow> dstring \<Rightarrow> dstring" where
  "getItem_or st d = (case st of None \<Rightarrow> d | Some t \<Rightarrow> text_or t d)"

definition loadRate :: "storage \<Rightarrow> jsnum" where
  "loadRate st =
     (let v = parseFloat_text (getItem_or st (Text (js ''1'')))
      in if Number_isFinite v then clamp v MIN_RATE MAX_RATE else Num 1)"

text \<open>The range \<open>[MIN_RATE, MAX_RATE]\<close> as a predicate on numbers.\<close>

fun in_range :: "jsnum \<Rightarrow> bool" where
  "in_range (Num x) = (1/10 \<le> x \<and> x \<le> 16)"
| "in_range _ = False"

section \<open>Players\<close>

text \<open>
  The \<open><audio>\<close> element of a player, with the attributes the script reads and writes.
  \<open>playbackRate\<close> is a finite double by its IDL type: assigning a non-finite value
  throws a \<open>TypeError\<close>, which \<open>applyRate\<close> catches and logs, leaving the rate as it
  was. Every finite rate is taken to be supported by the host.
\<close>

record audio =
  playbackRate :: real
  currentTime :: real
  loop :: bool
  paused :: bool

text \<open>\<open>try { audio.playbackRate = rate; } catch (e) { console.warn(...) }\<close>\<close>

fun set_playbackRate :: "jsnum \<Rightarrow> audio \<Rightarrow> audio" where
  "set_playbackRate (Num x) a = a\<lparr>playbackRate := x\<rparr>"
| "set_playbackRate _ a = a"

text \<open>\<open>audio.playbackRate || 1\<close>: zero is falsy.\<close>

definition rate_or_1 :: "audio \<Rightarrow> real" where
  "rate_or_1 a = (if playbackRate a = 0 then 1 else playbackRate a)"

text \<open>
  A decoded \<open>AudioBuffer\<close> and an \<open>AudioBufferSourceNode\<close> created on the player's
  \<open>AudioContext\<close>. A node is \<open>playing\<close> from \<open>start\<close> until \<open>stop\<close>.
\<close>

record audio_buffer =
  channelData :: "real list list"
  duration :: real

record source_node =
  node_rate :: real
  node_loop :: bool
  node_offset :: real
  playing :: bool
  onended_set :: bool

text \<open>
  The state \<open>enhancePlayer\<close> attaches to one \<open>.bw-player\<close> element: its audio element,
  the rate field and the highlight of the speed buttons, the cached reversed buffer
  (\<open>player.__tmReverseBuffer\<close>), and the variables of the closure that drive reverse
  playback. \<open>reverseSource\<close> refers to a node of \<open>ctx_nodes\<close>, the nodes created so far
  on \<open>reverseCtx\<close>, by its index. \<open>indicator_width\<close> is \<open>None\<close> when the player has no
  progress indicator with a container, and \<open>indicator_x\<close> is the \<open>translateX\<close> offset
  of the indicator (\<open>None\<close> for the empty transform). \<open>fetch_calls\<close> and
  \<open>reverse_runs\<close> are probes: they count the calls of \<open>fetch\<close> and the completed
  decode-and-reverse passes, and nothing reads them.
\<close>

record player =
  audio_el :: audio
  input_value :: dstring
  active_btns :: "bool list"
  tmReverseBuffer :: "audio_buffer option"
  reverseCtx :: bool
  reverseSource :: "nat option"
  reverseRAF :: bool
  reverseStartOffset :: real
  reverseDuration :: real
  reverseStartCtxTime :: real
  reverse_active :: bool
  indicator_width :: "real option"
  indicator_x :: "real option"
  ctx_nodes :: "source_node list"
  fetch_calls :: nat
  reverse_runs :: nat

text \<open>The closure state right after the variables are declared in \<open>enhancePlayer\<close>.\<close>

definition new_player :: "audio \<Rightarrow> real option \<Rightarrow> player" where
  "new_player a w =
     \<lparr>audio_el = a, input_value = Text [], active_btns = map (\<lambda>_. False) SPEEDS,
      tmReverseBuffer = None, reverseCtx = False, reverseSource = None,
      reverseRAF = False, reverseStartOffset = 0, reverseDuration = 0,
      reverseStartCtxTime = 0, reverse_active = False,
      indicator_width = w, indicator_x = None, ctx_nodes = [],
      fetch_calls = 0, reverse_runs = 0\<rparr>"

section \<open>The rate controller\<close>

text \<open>
  \<open>function syncUI() { const r = Math.round((audio.playbackRate || 1) * 100) / 100;
     rateBtns.forEach((b) => { const same = Math.abs(parseFloat(b.dataset.rate) - r) < 0.001;
       b.classList.toggle('tm-active', same); });
     input.value = String(r); }\<close>
\<close>

definition Math_round :: "real \<Rightarrow> real" where
  "Math_round x = of_int \<lfloor>x + 1/2\<rfloor>"

definition syncUI :: "player \<Rightarrow> player" where
  "syncUI p =
     (let r = Math_round (rate_or_1 (audio_el p) * 100) / 100
      in p\<lparr>active_btns := map (\<lambda>b. \<bar>b - r\<bar> < 1/1000) SPEEDS,
            input_value := NumText (Num r)\<rparr>)"

text \<open>
  \<open>function applyRate(v) { player.__tmApplyRate = applyRate;
     const rate = clamp(v, MIN_RATE, MAX_RATE);
     try { audio.playbackRate = rate; } catch (e) { console.warn(...); }
     syncUI(); }\<close>

  The same in both revisions. The hook \<open>__tmApplyRate\<close> is set by the first call, which
  \<open>enhancePlayer\<close> makes before it returns, so an enhanced player always has it.
\<close>

definition applyRate :: "jsnum \<Rightarrow> player \<Rightarrow> player" where
  "applyRate v p =
     (let rate = clamp v MIN_RATE MAX_RATE
      in syncUI (p\<lparr>audio_el := set_playbackRate rate (audio_el p)\<rparr>))"

text \<open>
  First revision:
  \<open>function setRate(v) { const rate = clamp(v, MIN_RATE, MAX_RATE);
     applyRate(rate); saveRate(rate); }\<close>

  Second revision:
  \<open>function setRate(v) { applyRate(v); saveRate(v); }\<close>

  Both take the player's state and the store and return them updated.
\<close>

definition setRate :: "jsnum \<Rightarrow> player \<times> storage \<Rightarrow> player \<times> storage" where
  "setRate v ps =
     (let rate = clamp v MIN_RATE MAX_RATE
      in (applyRate rate (fst ps), saveRate rate))"

definition setRate_r2 :: "jsnum \<Rightarrow> player \<times> storage \<Rightarrow> player \<times> storage" where
  "setRate_r2 v ps = (applyRate v (fst ps), saveRate v)"

text \<open>
  A click on the speed button made for \<open>rate\<close> (\<open>makeButton(r, setRate)\<close> for each
  \<open>r\<close> of \<open>SPEEDS\<close>): \<open>btn.addEventListener('click', () => apply(rate))\<close>.
\<close>

definition speed_click :: "real \<Rightarrow> player \<times> storage \<Rightarrow> player \<times> storage" where
  "speed_click r ps = setRate (Num r) ps"

definition speed_click_r2 :: "real \<Rightarrow> player \<times> storage \<Rightarrow> player \<times> storage" where
  "speed_click_r2 r ps = setRate_r2 (Num r) ps"

text \<open>
  \<open>function handleInputEvent() {
     const val = clamp(parseFloat(input.value || 'NaN'), MIN_RATE, MAX_RATE);
     if (Number.isFinite(val)) setRate(val); }\<close>
\<close>

definition input_rate :: "player \<Rightarrow> jsnum" where
  "input_rate p =
     clamp (parseFloat_text (text_or (input_value p) (Text (js ''NaN'')))) MIN_RATE MAX_RATE"

definition handleInputEvent :: "player \<times> storage \<Rightarrow> player \<times> storage" where
  "handleInputEvent ps =
     (let val = input_rate (fst ps)
      in if Number_isFinite val then setRate val ps else ps)"

definition handleInputEvent_r2 :: "player \<times> storage \<Rightarrow> player \<times> storage" where
  "handleInputEvent_r2 ps =
     (let val = input_rate (fst ps)
      in if Number_isFinite val then setRate_r2 val ps else ps)"

text \<open>
  The rate field is created with \<open>input.type = 'number'\<close>. The host keeps the value of
  such a field sanitised: text that is not a valid floating-point number (an optional
  \<open>-\<close>, digits or a fraction or both, an optional exponent with digits), or that does
  not convert to a finite number, is replaced by the empty string. A valid
  floating-point number is a decimal literal, so its conversion is the value
  \<open>parseFloat\<close> gives it. \<open>enter_text\<close> is what the field holds after the user has
  entered \<open>t\<close>.
\<close>

fun valid_exponent :: "ustring \<Rightarrow> bool" where
  "valid_exponent [] = True"
| "valid_exponent (c # cs) =
     ((c = code_unit CHR ''e'' \<or> c = code_unit CHR ''E'') \<and>
      (let ds = (case cs of [] \<Rightarrow> []
                 | d # r \<Rightarrow> if d = code_unit CHR ''-'' \<or> d = code_unit CHR ''+'' then r
                            else d # r)
       in ds \<noteq> [] \<and> list_all is_digit ds))"

fun valid_unsigned :: "ustring \<Rightarrow> bool" where
  "valid_unsigned u =
     (let ip = takeWhile is_digit u; r = dropWhile is_digit u
      in case r of
           [] \<Rightarrow> ip \<noteq> []
         | c # cs \<Rightarrow>
             if c = code_unit CHR ''.''
             then takeWhile is_digit cs \<noteq> [] \<and> valid_exponent (dropWhile is_digit cs)
             else ip \<noteq> [] \<and> valid_exponent r)"

fun valid_float :: "ustring \<Rightarrow> bool" where
  "valid_float [] = False"
| "valid_float (c # cs) =
     (if c = code_unit CHR ''-'' then valid_unsigned cs else valid_unsigned (c # cs))"

definition field_keeps :: "ustring \<Rightarrow> bool" where
  "field_keeps t = (valid_float t \<and> Number_isFinite (parseFloat t))"

definition enter_text :: "ustring \<Rightarrow> player \<Rightarrow> player" where
  "enter_text t p = p\<lparr>input_value := Text (if field_keeps t then t else [])\<rparr>"

section \<open>The page: registration and apply-to-all\<close>

text \<open>
  A \<open>.bw-player\<close> element of the document is either not enhanced, with the audio
  element \<open>findAudio\<close> finds for it (if any) and the width of its progress indicator
  (if it has one), or enhanced, with the state of its closure. \<open>enhancePlayer\<close> sets
  the markers \<open>__tmEnhanced\<close> and \<open>__tmApplyRate\<close> in one synchronous run, so an
  element carries both or neither.

  The page holds the session override \<open>GLOBAL_RATE\<close> (\<open>null\<close> is \<open>None\<close>), the store,
  the elements in document order and, in the second revision only, the constant
  \<open>INITIAL_RATE\<close>. \<open>getItem_calls\<close> is a probe counting the reads of the store.
\<close>

datatype element = Bare "audio option" "real option" | Enhanced player

record page =
  GLOBAL_RATE :: "jsnum option"
  store :: storage
  elements :: "element list"
  INITIAL_RATE :: jsnum
  getItem_calls :: nat

text \<open>
  First revision, \<open>enhancePlayer(player)\<close> for the element at index \<open>i\<close>:
  \<open>if (!player || player.__tmEnhanced) return; const audio = findAudio(player);
    if (!audio) return; ...
    const initRate = (GLOBAL_RATE !== null ? GLOBAL_RATE : loadRate()); applyRate(initRate);\<close>
\<close>

definition enhancePlayer :: "nat \<Rightarrow> page \<Rightarrow> page" where
  "enhancePlayer i pg =
     (if length (elements pg) \<le> i then pg
      else case elements pg ! i of
        Enhanced _ \<Rightarrow> pg
      | Bare None _ \<Rightarrow> pg
      | Bare (Some a) w \<Rightarrow>
          (case GLOBAL_RATE pg of
             Some g \<Rightarrow>
               pg\<lparr>elements := (elements pg)[i := Enhanced (applyRate g (new_player a w))]\<rparr>
           | None \<Rightarrow>
               pg\<lparr>elements :=
                    (elements pg)[i := Enhanced (applyRate (loadRate (store pg)) (new_player a w))],
                  getItem_calls := getItem_calls pg + 1\<rparr>))"

text \<open>
  Second revision: \<open>function getEffectiveRate() { return GLOBAL_RATE !== null ?
  GLOBAL_RATE : INITIAL_RATE; }\<close> and, in \<open>enhancePlayer\<close>,
  \<open>applyRate(getEffectiveRate());\<close>
\<close>

definition getEffectiveRate :: "page \<Rightarrow> jsnum" where
  "getEffectiveRate pg = (case GLOBAL_RATE pg of Some g \<Rightarrow> g | None \<Rightarrow> INITIAL_RATE pg)"

definition enhancePlayer_r2 :: "nat \<Rightarrow> page \<Rightarrow> page" where
  "enhancePlayer_r2 i pg =
     (if length (elements pg) \<le> i then pg
      else case elements pg ! i of
        Enhanced _ \<Rightarrow> pg
      | Bare None _ \<Rightarrow> pg
      | Bare (Some a) w \<Rightarrow>
          pg\<lparr>elements :=
               (elements pg)[i := Enhanced (applyRate (getEffectiveRate pg) (new_player a w))]\<rparr>)"

text \<open>
  The script body at page load. First revision: \<open>let GLOBAL_RATE = null;\<close> then
  \<open>document.querySelectorAll('.bw-player').forEach(enhancePlayer)\<close>. The second
  revision evaluates \<open>const INITIAL_RATE = loadRate();\<close> first. In the first revision
  \<open>INITIAL_RATE\<close> does not exist; the field is set to \<open>NaN\<close> and never read.
\<close>

definition startup :: "storage \<Rightarrow> element list \<Rightarrow> page" where
  "startup st els =
     fold enhancePlayer [0..<length els]
       \<lparr>GLOBAL_RATE = None, store = st, elements = els, INITIAL_RATE = NaN,
        getItem_calls = 0\<rparr>"

definition startup_r2 :: "storage \<Rightarrow> element list \<Rightarrow> page" where
  "startup_r2 st els =
     fold enhancePlayer_r2 [0..<length els]
       \<lparr>GLOBAL_RATE = None, store = st, elements = els, INITIAL_RATE = loadRate st,
        getItem_calls = 1\<rparr>"

text \<open>
  A player added later: the \<open>MutationObserver\<close> callback calls \<open>enhancePlayer\<close> on it.
\<close>

definition add_player :: "element \<Rightarrow> page \<Rightarrow> page" where
  "add_player el pg = enhancePlayer (length (elements pg)) (pg\<lparr>elements := elements pg @ [el]\<rparr>)"

definition add_player_r2 :: "element \<Rightarrow> page \<Rightarrow> page" where
  "add_player_r2 el pg =
     enhancePlayer_r2 (length (elements pg)) (pg\<lparr>elements := elements pg @ [el]\<rparr>)"

text \<open>A handler of the enhanced player at index \<open>i\<close>, run on the page.\<close>

definition on_player ::
  "nat \<Rightarrow> (player \<times> storage \<Rightarrow> player \<times> storage) \<Rightarrow> page \<Rightarrow> page" where
  "on_player i h pg =
     (if length (elements pg) \<le> i then pg
      else case elements pg ! i of
        Bare _ _ \<Rightarrow> pg
      | Enhanced p \<Rightarrow>
          (let ps = h (p, store pg)
           in pg\<lparr>elements := (elements pg)[i := Enhanced (fst ps)], store := snd ps\<rparr>))"

text \<open>
  The apply-to-all button of the player at index \<open>i\<close> (the same in both revisions):
  \<open>const rate = audio.playbackRate || 1; GLOBAL_RATE = rate; saveRate(rate);
    document.querySelectorAll('.bw-player').forEach((pl) => {
      if (pl === player) return;
      if (pl.__tmApplyRate) { pl.__tmApplyRate(rate); }
      else { const a = findAudio(pl); if (a) { try { a.playbackRate = rate; } catch(_) {} } } });\<close>
\<close>

fun receive_rate :: "jsnum \<Rightarrow> element \<Rightarrow> element" where
  "receive_rate rate (Enhanced q) = Enhanced (applyRate rate q)"
| "receive_rate rate (Bare (Some a) w) = Bare (Some (set_playbackRate rate a)) w"
| "receive_rate rate (Bare None w) = Bare None w"

definition apply_to_all :: "nat \<Rightarrow> page \<Rightarrow> page" where
  "apply_to_all i pg =
     (if length (elements pg) \<le> i then pg
      else case elements pg ! i of
        Bare _ _ \<Rightarrow> pg
      | Enhanced p \<Rightarrow>
          (let rate = Num (rate_or_1 (audio_el p))
           in pg\<lparr>GLOBAL_RATE := Some rate,
                 store := saveRate rate,
                 elements :=
                   map (\<lambda>(j, pl). if j = i then pl else receive_rate rate pl)
                       (enumerate 0 (elements pg))\<rparr>))"

text \<open>The rate of an element's audio, if it has one.\<close>

fun element_rate :: "element \<Rightarrow> real option" where
  "element_rate (Enhanced q) = Some (playbackRate (audio_el q))"
| "element_rate (Bare (Some a) w) = Some (playbackRate a)"
| "element_rate (Bare None w) = None"

section \<open>The reverse-playback engine\<close>

text \<open>
  Times are finite reals and arithmetic on them is exact (rounding is not modelled).
  The remainder operator \<open>%\<close> truncates the quotient toward zero, so the result has
  the sign of the dividend. The divisor is a buffer duration, which is positive.
\<close>

definition trunc :: "real \<Rightarrow> int" where
  "trunc q = (if 0 \<le> q then \<lfloor>q\<rfloor> else \<lceil>q\<rceil>)"

definition js_rem :: "real \<Rightarrow> real \<Rightarrow> real" where
  "js_rem x y = x - y * of_int (trunc (x / y))"

text \<open>Access to the nodes of the player's context by index.\<close>

definition node_at :: "player \<Rightarrow> nat \<Rightarrow> source_node option" where
  "node_at p i = (if i < length (ctx_nodes p) then Some (ctx_nodes p ! i) else None)"

definition update_node :: "nat \<Rightarrow> (source_node \<Rightarrow> source_node) \<Rightarrow> player \<Rightarrow> player" where
  "update_node i f p = p\<lparr>ctx_nodes := (ctx_nodes p)[i := f (ctx_nodes p ! i)]\<rparr>"

text \<open>The sources that are audible: started and not stopped.\<close>

definition live_sources :: "player \<Rightarrow> nat" where
  "live_sources p = length (filter playing (ctx_nodes p))"

text \<open>
  \<open>function stopReverse(commitTime = false) {
     if (reverseSource) { try { reverseSource.stop(); } catch (_) {}
       try { reverseSource.disconnect(); } catch (_) {}  reverseSource = null; }
     if (reverseRAF) { cancelAnimationFrame(reverseRAF); reverseRAF = null; }
     if (indicator) indicator.style.transform = '';
     if (commitTime && reverseDuration > 0 && reverseCtx) {
       const elapsed = (reverseCtx.currentTime - reverseStartCtxTime) * (audio.playbackRate || 1);
       const T = Math.max(0, reverseStartOffset - elapsed);
       audio.currentTime = T; }
     reverseBtn.classList.remove('tm-active'); }\<close>

  \<open>now\<close> is \<open>reverseCtx.currentTime\<close> at the call.
\<close>

definition stopReverse :: "bool \<Rightarrow> real \<Rightarrow> player \<Rightarrow> player" where
  "stopReverse commitTime now p =
     (let p1 = (case reverseSource p of
                  None \<Rightarrow> p
                | Some i \<Rightarrow> (update_node i (\<lambda>n. n\<lparr>playing := False\<rparr>) p)\<lparr>reverseSource := None\<rparr>);
          p2 = p1\<lparr>reverseRAF := False, indicator_x := None\<rparr>;
          p3 = (if commitTime \<and> 0 < reverseDuration p2 \<and> reverseCtx p2 then
                  (let elapsed = (now - reverseStartCtxTime p2) * rate_or_1 (audio_el p2);
                       T = max 0 (reverseStartOffset p2 - elapsed)
                   in p2\<lparr>audio_el := (audio_el p2)\<lparr>currentTime := T\<rparr>\<rparr>)
                else p2)
      in p3\<lparr>reverse_active := False\<rparr>)"

text \<open>
  The second revision tests \<open>if (commitTime && reverseDuration > 0)\<close> only, so reading
  \<open>reverseCtx.currentTime\<close> throws a \<open>TypeError\<close> when no context exists (\<open>Inl\<close>, with
  the state reached by then). The rest of the engine is the same code in both
  revisions; it is modelled once, with \<open>stopReverse\<close>.
\<close>

definition stopReverse_r2 :: "bool \<Rightarrow> real \<Rightarrow> player \<Rightarrow> player + player" where
  "stopReverse_r2 commitTime now p =
     (let p1 = (case reverseSource p of
                  None \<Rightarrow> p
                | Some i \<Rightarrow> (update_node i (\<lambda>n. n\<lparr>playing := False\<rparr>) p)\<lparr>reverseSource := None\<rparr>);
          p2 = p1\<lparr>reverseRAF := False, indicator_x := None\<rparr>
      in if commitTime \<and> 0 < reverseDuration p2 then
           (if reverseCtx p2 then
              (let elapsed = (now - reverseStartCtxTime p2) * rate_or_1 (audio_el p2);
                   T = max 0 (reverseStartOffset p2 - elapsed)
               in Inr (p2\<lparr>audio_el := (audio_el p2)\<lparr>currentTime := T\<rparr>,
                          reverse_active := False\<rparr>))
            else Inl p2)
         else Inr (p2\<lparr>reverse_active := False\<rparr>))"

text \<open>
  The position shown during reverse playback, computed in the frame callback:
  \<open>if (reverseSource.loop) {
       const cycleTime = (reverseStartOffset - elapsed) % reverseDuration;
       T = (cycleTime <= 0 ? cycleTime + reverseDuration : cycleTime);
     } else { T = Math.max(0, reverseStartOffset - elapsed); }\<close>
\<close>

definition reverse_position :: "bool \<Rightarrow> real \<Rightarrow> real \<Rightarrow> real \<Rightarrow> real" where
  "reverse_position lp s elapsed D =
     (if lp then
        (let cycleTime = js_rem (s - elapsed) D
         in if cycleTime \<le> 0 then cycleTime + D else cycleTime)
      else max 0 (s - elapsed))"

text \<open>
  The frame callback \<open>step\<close>:
  \<open>if (!reverseSource) return;
    const rate = audio.playbackRate || 1;
    const elapsed = (reverseCtx.currentTime - reverseStartCtxTime) * rate;
    ... T as above ...
    const percent = T / reverseDuration; const x = -((1 - percent) * width);
    indicator.style.transform = `translateX(${x}px)`;
    if (!reverseSource.loop && T <= 0) { stopReverse(true); return; }
    reverseRAF = requestAnimationFrame(step);\<close>

  \<open>width\<close> is the width read when the session started, and \<open>reverseDuration\<close> the
  positive duration of the decoded buffer.
\<close>

definition step :: "real \<Rightarrow> player \<Rightarrow> player" where
  "step now p =
     (case reverseSource p of
        None \<Rightarrow> p
      | Some i \<Rightarrow>
          (case node_at p i of
             None \<Rightarrow> p
           | Some n \<Rightarrow>
               (let rate = rate_or_1 (audio_el p);
                    elapsed = (now - reverseStartCtxTime p) * rate;
                    T = reverse_position (node_loop n) (reverseStartOffset p) elapsed
                          (reverseDuration p);
                    percent = T / reverseDuration p;
                    width = (case indicator_width p of None \<Rightarrow> 0 | Some w \<Rightarrow> w);
                    x = - ((1 - percent) * width);
                    p1 = p\<lparr>indicator_x := Some x\<rparr>
                in if \<not> node_loop n \<and> T \<le> 0 then stopReverse True now p1
                   else p1\<lparr>reverseRAF := True\<rparr>)))"

text \<open>
  The click handler of the reverse button is an \<open>async\<close> function. It runs
  synchronously up to its first \<open>await\<close>, which it reaches only when no reversed buffer
  is cached; the host then runs other handlers until the fetch and the decoding have
  settled, and resumes it. The three consecutive awaits (\<open>fetch\<close>, \<open>arrayBuffer\<close>,
  \<open>decodeAudioData\<close>) are taken as one suspension: the handler does nothing between
  them.

  \<open>reverse_start\<close> is the part after the buffer is cached:
  \<open>const decoded = player.__tmReverseBuffer;
    reverseDuration = decoded.duration;
    reverseStartOffset = audio.currentTime > 0 ? audio.currentTime : reverseDuration;
    const reversedOffset = reverseDuration - reverseStartOffset;
    reverseSource = reverseCtx.createBufferSource();
    reverseSource.buffer = decoded;
    reverseSource.playbackRate.value = audio.playbackRate || 1;
    reverseSource.loop = audio.loop;
    reverseSource.connect(reverseCtx.destination);
    reverseSource.start(0, reversedOffset);
    reverseStartCtxTime = reverseCtx.currentTime;
    reverseBtn.classList.add('tm-active');
    if (indicator && indicatorContainer) { ... reverseRAF = requestAnimationFrame(step); }
    reverseSource.onended = reverseSource.loop ? null : () => stopReverse(true);\<close>

  \<open>start\<close> throws a \<open>RangeError\<close> on a negative offset; the handler's \<open>catch\<close> logs it
  and calls \<open>stopReverse()\<close>.
\<close>

definition reverse_start :: "real \<Rightarrow> player \<Rightarrow> player" where
  "reverse_start now p =
     (case tmReverseBuffer p of
        None \<Rightarrow> p
      | Some decoded \<Rightarrow>
          (let D = duration decoded;
               s = (if 0 < currentTime (audio_el p) then currentTime (audio_el p) else D);
               reversedOffset = D - s;
               i = length (ctx_nodes p);
               node = \<lparr>node_rate = rate_or_1 (audio_el p), node_loop = loop (audio_el p),
                       node_offset = reversedOffset, playing = False, onended_set = False\<rparr>;
               p1 = p\<lparr>reverseDuration := D, reverseStartOffset := s,
                      reverseSource := Some i, ctx_nodes := ctx_nodes p @ [node]\<rparr>
           in if reversedOffset < 0 then stopReverse False now p1
              else
                (let p2 = update_node i (\<lambda>n. n\<lparr>playing := True\<rparr>) p1;
                     p3 = p2\<lparr>reverseStartCtxTime := now, reverse_active := True\<rparr>;
                     p4 = (if indicator_width p3 \<noteq> None then p3\<lparr>reverseRAF := True\<rparr> else p3)
                 in update_node i (\<lambda>n. n\<lparr>onended_set := \<not> node_loop n\<rparr>) p4)))"

text \<open>
  The handler up to its first suspension:
  \<open>if (reverseSource) { stopReverse(true); audio.play(); return; }
    audio.pause(); stopReverse();
    if (!reverseCtx) reverseCtx = new AudioContext();
    try { if (!player.__tmReverseBuffer) { const resp = await fetch(audio.currentSrc); ...\<close>

  The second component of the result tells whether the handler is suspended at the
  \<open>await\<close> (\<open>True\<close>) or has returned.
\<close>

definition reverse_click :: "real \<Rightarrow> player \<Rightarrow> player \<times> bool" where
  "reverse_click now p =
     (if reverseSource p \<noteq> None then
        (let p1 = stopReverse True now p
         in (p1\<lparr>audio_el := (audio_el p1)\<lparr>paused := False\<rparr>\<rparr>, False))
      else
        (let p1 = stopReverse False now (p\<lparr>audio_el := (audio_el p)\<lparr>paused := True\<rparr>\<rparr>);
             p2 = p1\<lparr>reverseCtx := True\<rparr>
         in case tmReverseBuffer p2 of
              None \<Rightarrow> (p2\<lparr>fetch_calls := fetch_calls p2 + 1\<rparr>, True)
            | Some _ \<Rightarrow> (reverse_start now p2, False)))"

text \<open>
  The handler resumed with the outcome of fetching and decoding: a failure, which the
  \<open>catch\<close> logs before it calls \<open>stopReverse()\<close>, or the decoded buffer:
  \<open>for (let ch = 0; ch < decoded.numberOfChannels; ch++) {
       decoded.getChannelData(ch).reverse(); }
     player.__tmReverseBuffer = decoded;\<close>
  followed by \<open>reverse_start\<close>.
\<close>

datatype decode_error = FetchFailed | DecodeFailed

definition reverse_buffer :: "audio_buffer \<Rightarrow> audio_buffer" where
  "reverse_buffer b = b\<lparr>channelData := map rev (channelData b)\<rparr>"

definition reverse_click_resume :: "real \<Rightarrow> decode_error + audio_buffer \<Rightarrow> player \<Rightarrow> player" where
  "reverse_click_resume now res p =
     (case res of
        Inl _ \<Rightarrow> stopReverse False now p
      | Inr decoded \<Rightarrow>
          reverse_start now
            (p\<lparr>tmReverseBuffer := Some (reverse_buffer decoded),
               reverse_runs := reverse_runs p + 1\<rparr>))"

text \<open>
  The other handlers that end a reverse session. The \<open>play\<close> event has two listeners
  in the first revision, run in the order they were added; \<open>g\<close> is \<open>GLOBAL_RATE\<close>.
  \<open>audio.addEventListener('play', () => stopReverse());\<close>
  \<open>audio.addEventListener('play', () => {
     const val = clamp(parseFloat(input.value || 'NaN'), MIN_RATE, MAX_RATE);
     if (Number.isFinite(val)) { applyRate(val); }
     else { const eff = GLOBAL_RATE !== null ? GLOBAL_RATE : (audio.playbackRate || 1);
            applyRate(eff); } });\<close>
  \<open>stopBtn.closest('button')?.addEventListener('click', () => stopReverse());\<close>
  \<open>stopLocalBtn.addEventListener('click', () => { stopReverse();
     try { audio.pause(); } catch(_) {}  audio.currentTime = 0; });\<close>
  \<open>reverseSource.onended = ... () => stopReverse(true)\<close>
\<close>

definition on_play :: "real \<Rightarrow> jsnum option \<Rightarrow> player \<Rightarrow> player" where
  "on_play now g p =
     (let p1 = stopReverse False now p;
          val = input_rate p1
      in if Number_isFinite val then applyRate val p1
         else applyRate (case g of Some r \<Rightarrow> r | None \<Rightarrow> Num (rate_or_1 (audio_el p1))) p1)"

definition stop_click :: "real \<Rightarrow> player \<Rightarrow> player" where
  "stop_click now p = stopReverse False now p"

definition stopLocal_click :: "real \<Rightarrow> player \<Rightarrow> player" where
  "stopLocal_click now p =
     (let p1 = stopReverse False now p
      in p1\<lparr>audio_el := (audio_el p1)\<lparr>paused := True, currentTime := 0\<rparr>\<rparr>)"

definition on_ended :: "real \<Rightarrow> player \<Rightarrow> player" where
  "on_ended now p = stopReverse True now p"

text \<open>
  \<open>audio.addEventListener('ratechange', () => {
     if (reverseSource) reverseSource.playbackRate.value = audio.playbackRate || 1; });\<close>
  \<open>audio.addEventListener('ratechange', syncUI);\<close>
\<close>

definition on_ratechange :: "player \<Rightarrow> player" where
  "on_ratechange p =
     syncUI (case reverseSource p of
               None \<Rightarrow> p
             | Some i \<Rightarrow> update_node i (\<lambda>n. n\<lparr>node_rate := rate_or_1 (audio_el p)\<rparr>) p)"

text \<open>
  The second revision re-applies the effective rate \<open>eff\<close> (\<open>getEffectiveRate()\<close>)
  instead of the field's value:
  \<open>audio.addEventListener('loadedmetadata', () => { applyRate(getEffectiveRate()); });\<close>
  \<open>audio.addEventListener('play', () => { const eff = getEffectiveRate();
     if (Math.abs(audio.playbackRate - eff) > 0.001) { applyRate(eff); } });\<close>
\<close>

definition on_loadedmetadata_r2 :: "jsnum \<Rightarrow> player \<Rightarrow> player" where
  "on_loadedmetadata_r2 eff p = applyRate eff p"

fun differs_from :: "real \<Rightarrow> jsnum \<Rightarrow> bool" where
  "differs_from r (Num e) = (1/1000 < \<bar>r - e\<bar>)"
| "differs_from r NaN = False"
| "differs_from r _ = True"

definition on_play_r2 :: "real \<Rightarrow> jsnum \<Rightarrow> player \<Rightarrow> player" where
  "on_play_r2 now eff p =
     (let p1 = stopReverse False now p
      in if differs_from (playbackRate (audio_el p1)) eff then applyRate eff p1 else p1)"

text \<open>
  The events a player can receive besides clicks on its own buttons, among them those
  that arrive while the reverse button's handler is suspended.
\<close>

datatype event = Play | StopClick | StopLocalClick | RateChange | Ended | Frame

fun handle :: "real \<Rightarrow> jsnum option \<Rightarrow> event \<Rightarrow> player \<Rightarrow> player" where
  "handle now g Play p = on_play now g p"
| "handle now g StopClick p = stop_click now p"
| "handle now g StopLocalClick p = stopLocal_click now p"
| "handle now g RateChange p = on_ratechange p"
| "handle now g Ended p = on_ended now p"
| "handle now g Frame p = step now p"

section \<open>Invariants\<close>

text \<open>
  \<open>single_session\<close>: the sources that are live on a player's context are the one
  \<open>reverseSource\<close> refers to, if that is playing, and no other.
\<close>

definition single_session :: "player \<Rightarrow> bool" where
  "single_session p =
     (case reverseSource p of
        None \<Rightarrow> live_sources p = 0
      | Some i \<Rightarrow> i < length (ctx_nodes p) \<and>
                  live_sources p = (if playing (ctx_nodes p ! i) then 1 else 0))"

text \<open>
  \<open>rates_in_range\<close>: every enhanced player of the page plays at a rate in
  \<open>[MIN_RATE, MAX_RATE]\<close>, and so does the session override when it is set.
\<close>

fun element_in_range :: "element \<Rightarrow> bool" where
  "element_in_range (Enhanced p) = in_range (Num (playbackRate (audio_el p)))"
| "element_in_range (Bare _ _) = True"

definition rates_in_range :: "page \<Rightarrow> bool" where
  "rates_in_range pg =
     (list_all element_in_range (elements pg) \<and>
      (case GLOBAL_RATE pg of None \<Rightarrow> True | Some g \<Rightarrow> in_range g))"

section \<open>Concrete players and pages\<close>

text \<open>
  Concrete states at which the theorems below are instantiated. \<open>enhanced_player\<close> is
  the state \<open>enhancePlayer\<close> leaves a player in on a page with an empty store and no
  override, where \<open>loadRate()\<close> is \<open>1\<close>.
\<close>

definition idle_audio :: audio where
  "idle_audio = \<lparr>playbackRate = 1, currentTime = 0, loop = False, paused = True\<rparr>"

definition enhanced_player :: "audio \<Rightarrow> real option \<Rightarrow> player" where
  "enhanced_player a w = applyRate (Num 1) (new_player a w)"

definition typed_player :: player where
  "typed_player = enter_text (js ''0.05'') (enhanced_player idle_audio None)"

definition demo_buffer :: audio_buffer where
  "demo_buffer = \<lparr>channelData = [[1, 2, 3], [4, 5, 6]], duration = 3\<rparr>"

text \<open>
  A looping player at rate \<open>2\<close> and position \<open>2\<close> whose reversed buffer is cached.
\<close>

definition cached_player :: player where
  "cached_player =
     (applyRate (Num 2) (enhanced_player (idle_audio\<lparr>currentTime := 2, loop := True\<rparr>) (Some 100)))
       \<lparr>tmReverseBuffer := Some (reverse_buffer demo_buffer), reverseCtx := True\<rparr>"

definition looping_player :: player where
  "looping_player = enhanced_player (idle_audio\<lparr>loop := True\<rparr>) (Some 100)"

text \<open>
  A player whose first click on the reverse button is suspended at the \<open>await\<close>, and
  the run in which a second click arrives before the first decoding has settled: both
  handlers are suspended, then resumed one after the other.
\<close>

definition pending_player :: player where
  "pending_player = fst (reverse_click 0 (enhanced_player idle_audio (Some 100)))"

definition overlapped_player :: "player \<Rightarrow> player" where
  "overlapped_player p =
     reverse_click_resume 3 (Inr demo_buffer)
       (reverse_click_resume 2 (Inr demo_buffer)
         (fst (reverse_click 1 (fst (reverse_click 0 p)))))"

text \<open>
  Something other than the script assigns \<open>audio.playbackRate = r\<close> on a player (the
  script expects it: \<open>Keep UI in sync if something else changes the playbackRate\<close>);
  the \<open>ratechange\<close> listeners then run.
\<close>

definition rate_set_outside :: "real \<Rightarrow> player \<Rightarrow> player" where
  "rate_set_outside r p = on_ratechange (p\<lparr>audio_el := (audio_el p)\<lparr>playbackRate := r\<rparr>\<rparr>)"

text \<open>
  A page with three enhanced players, the first with its rate set to \<open>r\<close> from
  outside, a bare element with audio and one without.
\<close>

definition demo_page_at :: "real \<Rightarrow> page" where
  "demo_page_at r =
     \<lparr>GLOBAL_RATE = None, store = Some (Text (js ''1'')),
      elements =
        [Enhanced (rate_set_outside r (enhanced_player idle_audio None)),
         Enhanced (enhanced_player idle_audio None),
         Enhanced (applyRate (Num 2) (enhanced_player idle_audio None)),
         Bare (Some idle_audio) None,
         Bare None None],
      INITIAL_RATE = Num 1, getItem_calls = 1\<rparr>"

definition one_player :: "element list" where
  "one_player = [Bare (Some idle_audio) None]"

section \<open>Properties of the rate store\<close>

lemmas parse_defs =
  parseFloat_def is_space_def is_digit_def digits_val_def digit_val_def scale10_def
  to_double_def js_def code_unit_def

lemmas rate_defs =
  enhanced_player_def applyRate_def syncUI_def clamp_def MIN_RATE_def MAX_RATE_def
  Math_round_def SPEEDS_def Let_def

lemma clamp_Num: "clamp (Num x) MIN_RATE MAX_RATE = Num (min 16 (max (1/10) x))"
  by (simp add: clamp_def MIN_RATE_def MAX_RATE_def)

lemma clamp_in_range: "in_range (clamp (Num x) MIN_RATE MAX_RATE)"
  by (simp add: clamp_Num)

lemma clamp_id: "in_range v \<Longrightarrow> clamp v MIN_RATE MAX_RATE = v"
  by (cases v) (simp_all add: clamp_Num)

lemma clamp_idem:
  "clamp (clamp v MIN_RATE MAX_RATE) MIN_RATE MAX_RATE = clamp v MIN_RATE MAX_RATE"
  by (cases v) (simp_all add: clamp_def MIN_RATE_def MAX_RATE_def)

lemma clamp_NaN: "clamp v MIN_RATE MAX_RATE = NaN \<longleftrightarrow> v = NaN"
  by (cases v) (simp_all add: clamp_def MIN_RATE_def MAX_RATE_def)

lemma clamp_finite: "Number_isFinite (clamp v MIN_RATE MAX_RATE) \<longleftrightarrow> v \<noteq> NaN"
  by (cases v) (simp_all add: clamp_def MIN_RATE_def MAX_RATE_def)

lemma clamp_range: "v \<noteq> NaN \<Longrightarrow> in_range (clamp v MIN_RATE MAX_RATE)"
  by (cases v) (simp_all add: clamp_def MIN_RATE_def MAX_RATE_def)

lemma SPEEDS_in_range: "r \<in> set SPEEDS \<Longrightarrow> in_range (Num r)"
  by (auto simp: SPEEDS_def)

lemma parseFloat_empty: "parseFloat [] = NaN"
  by (simp add: parseFloat_def js_def code_unit_def)

lemma text_or_finite: "parseFloat_text t = Num x \<Longrightarrow> text_or t d = t"
  by (cases t) (auto simp: parseFloat_empty)

lemma loadRate_in_range: "in_range (loadRate st)"
  by (cases "parseFloat_text (getItem_or st (Text (js ''1'')))")
     (simp_all add: loadRate_def clamp_Num)

text \<open>
  Claim C10. Whenever the stored text parses to a finite number \<open>x\<close>, \<open>loadRate\<close>
  returns \<open>clamp(x, 0.1, 16)\<close>; whatever is stored, the loaded rate lies in
  \<open>[0.1, 16]\<close>; a stored \<open>100\<close> loads as \<open>16\<close> and a stored \<open>0.01\<close> as \<open>0.1\<close>. A
  stored \<open>1e309\<close> parses to \<open>Infinity\<close>, which is not finite, and loads as \<open>1\<close>; a
  stored \<open>2\<close> after a no-break space parses to \<open>2\<close> and loads as \<open>2\<close>.
\<close>

theorem loadRate_clamps_stored:
  "(parseFloat_text t = Num x \<longrightarrow> loadRate (Some t) = clamp (Num x) MIN_RATE MAX_RATE)
   \<and> in_range (loadRate st)
   \<and> loadRate (Some (Text (js ''100''))) = Num 16
   \<and> loadRate (Some (Text (js ''0.01''))) = Num (1/10)
   \<and> loadRate (Some (Text (js ''1e309''))) = Num 1
   \<and> loadRate (Some (Text (0xA0 # js ''2''))) = Num 2"
proof (intro conjI impI)
  assume "parseFloat_text t = Num x"
  then show "loadRate (Some t) = clamp (Num x) MIN_RATE MAX_RATE"
    by (simp add: loadRate_def getItem_or_def text_or_finite)
next
  show "in_range (loadRate st)"
    by (rule loadRate_in_range)
next
  show "loadRate (Some (Text (js ''100''))) = Num 16"
    by (simp add: loadRate_def getItem_or_def clamp_Num parse_defs)
next
  show "loadRate (Some (Text (js ''0.01''))) = Num (1/10)"
    by (simp add: loadRate_def getItem_or_def clamp_Num parse_defs)
next
  show "loadRate (Some (Text (js ''1e309''))) = Num 1"
    by (simp add: loadRate_def getItem_or_def parse_defs)
next
  show "loadRate (Some (Text (0xA0 # js ''2''))) = Num 2"
    by (simp add: loadRate_def getItem_or_def clamp_Num parse_defs)
qed

theorem loadRate_clamps_stored_witness:
  "parseFloat_text (Text (js ''250'')) = Num 250 \<and> loadRate (Some (Text (js ''250''))) = Num 16"
  using loadRate_clamps_stored [of "Text (js ''250'')" 250]
  by (simp add: clamp_Num parse_defs)

section \<open>Properties of the rate controller\<close>

lemma playbackRate_applyRate:
  "v \<noteq> NaN \<Longrightarrow> Num (playbackRate (audio_el (applyRate v p))) = clamp v MIN_RATE MAX_RATE"
  by (cases v) (simp_all add: applyRate_def syncUI_def clamp_def MIN_RATE_def MAX_RATE_def Let_def)

lemma setRate_rate:
  "v \<noteq> NaN \<Longrightarrow> Num (playbackRate (audio_el (fst (setRate v ps)))) = clamp v MIN_RATE MAX_RATE"
  by (simp add: setRate_def Let_def playbackRate_applyRate clamp_NaN clamp_idem)

lemma setRate_store: "snd (setRate v ps) = saveRate (clamp v MIN_RATE MAX_RATE)"
  by (simp add: setRate_def Let_def)

lemma setRate_r2_rate:
  "v \<noteq> NaN \<Longrightarrow> Num (playbackRate (audio_el (fst (setRate_r2 v ps)))) = clamp v MIN_RATE MAX_RATE"
  by (simp add: setRate_r2_def playbackRate_applyRate)

lemma setRate_r2_store: "snd (setRate_r2 v ps) = saveRate v"
  by (simp add: setRate_r2_def)

lemma handleInputEvent_valid:
  "parseFloat_text (text_or (input_value (fst ps)) (Text (js ''NaN''))) = v \<Longrightarrow> v \<noteq> NaN \<Longrightarrow>
   handleInputEvent ps = setRate (clamp v MIN_RATE MAX_RATE) ps"
  by (simp add: handleInputEvent_def input_rate_def Let_def clamp_finite)

lemma handleInputEvent_r2_valid:
  "parseFloat_text (text_or (input_value (fst ps)) (Text (js ''NaN''))) = v \<Longrightarrow> v \<noteq> NaN \<Longrightarrow>
   handleInputEvent_r2 ps = setRate_r2 (clamp v MIN_RATE MAX_RATE) ps"
  by (simp add: handleInputEvent_r2_def input_rate_def Let_def clamp_finite)

lemma handleInputEvent_NaN:
  "parseFloat_text (text_or (input_value (fst ps)) (Text (js ''NaN''))) = NaN \<Longrightarrow>
   handleInputEvent ps = ps \<and> handleInputEvent_r2 ps = ps"
  by (simp add: handleInputEvent_def handleInputEvent_r2_def input_rate_def Let_def clamp_finite)

lemma loadRate_saveRate: "in_range v \<Longrightarrow> loadRate (saveRate v) = v"
  by (cases v) (simp_all add: loadRate_def saveRate_def getItem_or_def clamp_Num)

text \<open>
  Claim C1. A rate requested through the local rate-set operation reaches the audio
  element as \<open>clamp(r, 0.1, 16)\<close>, and the same clamped value is what is persisted
  and what the next page load reads back.
  First for \<open>setRate\<close> of the first revision at any number but \<open>NaN\<close>, then for the two
  ways a rate is requested in either revision: a click on a speed button, and an input
  event on a field whose text parses to a number. The second revision's \<open>setRate\<close>
  saves its argument as it is; its two callers pass a speed of \<open>SPEEDS\<close> and a value
  \<open>handleInputEvent\<close> has clamped.
\<close>

theorem local_rate_set_clamps:
  "(v \<noteq> NaN \<longrightarrow>
      Num (playbackRate (audio_el (fst (setRate v (p, st))))) = clamp v MIN_RATE MAX_RATE
      \<and> snd (setRate v (p, st)) = saveRate (clamp v MIN_RATE MAX_RATE))
   \<and> (r \<in> set SPEEDS \<longrightarrow>
      Num (playbackRate (audio_el (fst (speed_click r (p, st))))) = clamp (Num r) MIN_RATE MAX_RATE
      \<and> snd (speed_click r (p, st)) = saveRate (clamp (Num r) MIN_RATE MAX_RATE)
      \<and> Num (playbackRate (audio_el (fst (speed_click_r2 r (p, st))))) = clamp (Num r) MIN_RATE MAX_RATE
      \<and> snd (speed_click_r2 r (p, st)) = saveRate (clamp (Num r) MIN_RATE MAX_RATE))
   \<and> (parseFloat_text (text_or (input_value p) (Text (js ''NaN''))) = w \<and> w \<noteq> NaN \<longrightarrow>
      Num (playbackRate (audio_el (fst (handleInputEvent (p, st))))) = clamp w MIN_RATE MAX_RATE
      \<and> snd (handleInputEvent (p, st)) = saveRate (clamp w MIN_RATE MAX_RATE)
      \<and> Num (playbackRate (audio_el (fst (handleInputEvent_r2 (p, st))))) = clamp w MIN_RATE MAX_RATE
      \<and> snd (handleInputEvent_r2 (p, st)) = saveRate (clamp w MIN_RATE MAX_RATE))
   \<and> (v \<noteq> NaN \<longrightarrow>
      loadRate (saveRate (clamp v MIN_RATE MAX_RATE)) = clamp v MIN_RATE MAX_RATE)"
proof (intro conjI impI)
  assume "v \<noteq> NaN"
  then show "Num (playbackRate (audio_el (fst (setRate v (p, st))))) = clamp v MIN_RATE MAX_RATE"
    by (rule setRate_rate)
next
  assume "v \<noteq> NaN"
  then show "loadRate (saveRate (clamp v MIN_RATE MAX_RATE)) = clamp v MIN_RATE MAX_RATE"
    by (rule loadRate_saveRate [OF clamp_range])
next
  show "snd (setRate v (p, st)) = saveRate (clamp v MIN_RATE MAX_RATE)"
    by (rule setRate_store)
next
  assume "r \<in> set SPEEDS"
  show "Num (playbackRate (audio_el (fst (speed_click r (p, st))))) = clamp (Num r) MIN_RATE MAX_RATE"
    by (simp add: speed_click_def setRate_rate)
next
  show "snd (speed_click r (p, st)) = saveRate (clamp (Num r) MIN_RATE MAX_RATE)"
    by (simp add: speed_click_def setRate_store)
next
  show "Num (playbackRate (audio_el (fst (speed_click_r2 r (p, st))))) = clamp (Num r) MIN_RATE MAX_RATE"
    by (simp add: speed_click_r2_def setRate_r2_rate)
next
  assume "r \<in> set SPEEDS"
  then have "clamp (Num r) MIN_RATE MAX_RATE = Num r"
    by (intro clamp_id SPEEDS_in_range)
  then show "snd (speed_click_r2 r (p, st)) = saveRate (clamp (Num r) MIN_RATE MAX_RATE)"
    by (simp add: speed_click_r2_def setRate_r2_store)
next
  assume w: "parseFloat_text (text_or (input_value p) (Text (js ''NaN''))) = w \<and> w \<noteq> NaN"
  then have h: "handleInputEvent (p, st) = setRate (clamp w MIN_RATE MAX_RATE) (p, st)"
    and h2: "handleInputEvent_r2 (p, st) = setRate_r2 (clamp w MIN_RATE MAX_RATE) (p, st)"
    by (simp_all add: handleInputEvent_valid handleInputEvent_r2_valid)
  from w have c: "clamp w MIN_RATE MAX_RATE \<noteq> NaN"
    by (simp add: clamp_NaN)
  show "Num (playbackRate (audio_el (fst (handleInputEvent (p, st))))) = clamp w MIN_RATE MAX_RATE"
    using setRate_rate [OF c] by (simp add: h clamp_idem)
  show "snd (handleInputEvent (p, st)) = saveRate (clamp w MIN_RATE MAX_RATE)"
    by (simp add: h setRate_store clamp_idem)
  show "Num (playbackRate (audio_el (fst (handleInputEvent_r2 (p, st))))) = clamp w MIN_RATE MAX_RATE"
    using setRate_r2_rate [OF c] by (simp add: h2 clamp_idem)
  show "snd (handleInputEvent_r2 (p, st)) = saveRate (clamp w MIN_RATE MAX_RATE)"
    by (simp add: h2 setRate_r2_store)
qed

theorem local_rate_set_clamps_witness:
  "Num 32 \<noteq> NaN
   \<and> playbackRate (audio_el (fst (setRate (Num 32) (typed_player, None)))) = 16
   \<and> snd (setRate (Num 32) (typed_player, None)) = Some (NumText (Num 16))
   \<and> 12 \<in> set SPEEDS
   \<and> playbackRate (audio_el (fst (speed_click_r2 12 (typed_player, None)))) = 12
   \<and> snd (speed_click_r2 12 (typed_player, None)) = Some (NumText (Num 12))
   \<and> parseFloat_text (text_or (input_value typed_player) (Text (js ''NaN''))) = Num (1/20)
   \<and> playbackRate (audio_el (fst (handleInputEvent_r2 (typed_player, None)))) = 1/10
   \<and> snd (handleInputEvent_r2 (typed_player, None)) = Some (NumText (Num (1/10)))
   \<and> loadRate (saveRate (Num 16)) = Num 16"
proof -
  have t: "parseFloat_text (text_or (input_value typed_player) (Text (js ''NaN''))) = Num (1/20)"
    by (simp add: typed_player_def enter_text_def field_keeps_def parse_defs)
  have s: "12 \<in> set SPEEDS"
    by (simp add: SPEEDS_def)
  show ?thesis
    using local_rate_set_clamps [of "Num 32" typed_player None 12 "Num (1/20)"] t s
    by (simp add: clamp_Num saveRate_def)
qed


lemma enter_rejected: "\<not> field_keeps t \<Longrightarrow> input_value (enter_text t p) = Text []"
  by (simp add: enter_text_def)

lemma enter_kept: "field_keeps t \<Longrightarrow> input_value (enter_text t p) = Text t"
  by (simp add: enter_text_def)

lemma field_keeps_nonempty: "field_keeps t \<Longrightarrow> t \<noteq> []"
  by (cases t) (simp_all add: field_keeps_def)

lemma field_parse:
  "parseFloat_text (text_or (input_value (enter_text t p)) (Text (js ''NaN''))) =
     (if field_keeps t then parseFloat t else NaN)"
proof (cases "field_keeps t")
  case True
  then show ?thesis
    using field_keeps_nonempty [OF True] by (simp add: enter_kept)
next
  case False
  then show ?thesis
    by (simp add: enter_rejected parse_defs)
qed

text \<open>
  Claim C9. An input event on a field whose text does not parse to a number changes
  nothing: the player (rate, field, highlight) and the store are returned as they were.
  That is the case for every entered text the field does not keep: text that is not a
  valid floating-point number, such as \<open>abc\<close> or \<open>Infinity\<close>, and text that converts
  to no finite number, such as \<open>1e309\<close>; the field then holds the empty string. So
  the field's text never parses to an infinity. Text the field keeps parses to a
  finite value, and a finite value is clamped into \<open>[0.1, 16]\<close> and applied, never
  rejected. (The handler clamps before it tests \<open>Number.isFinite\<close>, so an infinite
  value read from the field would be applied as \<open>16\<close>; the field never holds one.)
\<close>

theorem malformed_input_ignored:
  "(parseFloat_text (text_or (input_value p) (Text (js ''NaN''))) = NaN \<longrightarrow>
      handleInputEvent (p, st) = (p, st) \<and> handleInputEvent_r2 (p, st) = (p, st))
   \<and> (\<not> field_keeps t \<longrightarrow>
      handleInputEvent (enter_text t p, st) = (enter_text t p, st)
      \<and> handleInputEvent_r2 (enter_text t p, st) = (enter_text t p, st))
   \<and> handleInputEvent (enter_text (js ''abc'') p, st) = (enter_text (js ''abc'') p, st)
   \<and> handleInputEvent_r2 (enter_text (js ''abc'') p, st) = (enter_text (js ''abc'') p, st)
   \<and> handleInputEvent (enter_text (js ''Infinity'') p, st) = (enter_text (js ''Infinity'') p, st)
   \<and> handleInputEvent_r2 (enter_text (js ''Infinity'') p, st)
        = (enter_text (js ''Infinity'') p, st)
   \<and> handleInputEvent (enter_text (js ''1e309'') p, st) = (enter_text (js ''1e309'') p, st)
   \<and> handleInputEvent_r2 (enter_text (js ''1e309'') p, st) = (enter_text (js ''1e309'') p, st)
   \<and> parseFloat_text (text_or (input_value (enter_text t p)) (Text (js ''NaN''))) \<noteq> PosInf
   \<and> parseFloat_text (text_or (input_value (enter_text t p)) (Text (js ''NaN''))) \<noteq> NegInf
   \<and> (field_keeps t \<and> parseFloat t = Num y \<longrightarrow>
      Num (playbackRate (audio_el (fst (handleInputEvent (enter_text t p, st)))))
        = clamp (Num y) MIN_RATE MAX_RATE
      \<and> Num (playbackRate (audio_el (fst (handleInputEvent_r2 (enter_text t p, st)))))
        = clamp (Num y) MIN_RATE MAX_RATE)
   \<and> (parseFloat_text (text_or (input_value p) (Text (js ''NaN''))) = Num x \<longrightarrow>
      Num (playbackRate (audio_el (fst (handleInputEvent (p, st))))) = clamp (Num x) MIN_RATE MAX_RATE
      \<and> Num (playbackRate (audio_el (fst (handleInputEvent_r2 (p, st))))) = clamp (Num x) MIN_RATE MAX_RATE
      \<and> in_range (clamp (Num x) MIN_RATE MAX_RATE))"
proof -
  have inv: "handleInputEvent (enter_text s p, st) = (enter_text s p, st)
      \<and> handleInputEvent_r2 (enter_text s p, st) = (enter_text s p, st)"
    if "\<not> field_keeps s" for s
    using handleInputEvent_NaN [of "(enter_text s p, st)"] that
    by (simp add: field_parse)
  have abc: "\<not> field_keeps (js ''abc'')" and inf: "\<not> field_keeps (js ''Infinity'')"
    by (simp_all add: field_keeps_def js_def code_unit_def is_digit_def)
  have big: "\<not> field_keeps (js ''1e309'')"
    by (simp add: field_keeps_def parse_defs)
  have noinf: "parseFloat_text (text_or (input_value (enter_text t p)) (Text (js ''NaN''))) \<noteq> PosInf
      \<and> parseFloat_text (text_or (input_value (enter_text t p)) (Text (js ''NaN''))) \<noteq> NegInf"
    by (cases "parseFloat t") (auto simp: field_parse field_keeps_def)
  have fin: "Num (playbackRate (audio_el (fst (handleInputEvent (q, st))))) = clamp (Num z) MIN_RATE MAX_RATE
      \<and> Num (playbackRate (audio_el (fst (handleInputEvent_r2 (q, st))))) = clamp (Num z) MIN_RATE MAX_RATE"
    if h: "parseFloat_text (text_or (input_value q) (Text (js ''NaN''))) = Num z" for q z
  proof -
    have c: "clamp (Num z) MIN_RATE MAX_RATE \<noteq> NaN"
      by (simp add: clamp_NaN)
    have "handleInputEvent (q, st) = setRate (clamp (Num z) MIN_RATE MAX_RATE) (q, st)"
      using handleInputEvent_valid [of "(q, st)" "Num z"] h by simp
    moreover have "handleInputEvent_r2 (q, st) = setRate_r2 (clamp (Num z) MIN_RATE MAX_RATE) (q, st)"
      using handleInputEvent_r2_valid [of "(q, st)" "Num z"] h by simp
    ultimately show ?thesis
      using setRate_rate [OF c, of "(q, st)"] setRate_r2_rate [OF c, of "(q, st)"]
      by (simp add: clamp_idem)
  qed
  have kept: "Num (playbackRate (audio_el (fst (handleInputEvent (enter_text t p, st)))))
        = clamp (Num y) MIN_RATE MAX_RATE
      \<and> Num (playbackRate (audio_el (fst (handleInputEvent_r2 (enter_text t p, st)))))
        = clamp (Num y) MIN_RATE MAX_RATE"
    if "field_keeps t \<and> parseFloat t = Num y"
    using that fin [of "enter_text t p" y] by (simp add: field_parse)
  show ?thesis
    using handleInputEvent_NaN [of "(p, st)"] inv [of t] inv [OF abc] inv [OF inf] inv [OF big]
      noinf kept fin [of p x] clamp_in_range [of x]
    by simp
qed

theorem malformed_input_ignored_witness:
  "parseFloat_text (text_or (input_value (enter_text [] typed_player)) (Text (js ''NaN''))) = NaN
   \<and> handleInputEvent (enter_text [] typed_player, None) = (enter_text [] typed_player, None)
   \<and> \<not> field_keeps (js ''1e'')
   \<and> handleInputEvent (enter_text (js ''1e'') typed_player, Some (Text (js ''2'')))
        = (enter_text (js ''1e'') typed_player, Some (Text (js ''2'')))
   \<and> field_keeps (js ''1e3'') \<and> parseFloat (js ''1e3'') = Num 1000
   \<and> playbackRate (audio_el (fst (handleInputEvent (enter_text (js ''1e3'') typed_player, None)))) = 16
   \<and> parseFloat_text (text_or (input_value typed_player) (Text (js ''NaN''))) = Num (1/20)
   \<and> playbackRate (audio_el (fst (handleInputEvent (typed_player, None)))) = 1/10"
proof -
  have a: "parseFloat_text (text_or (input_value (enter_text [] typed_player)) (Text (js ''NaN''))) = NaN"
    by (simp add: field_parse field_keeps_def)
  have b: "\<not> field_keeps (js ''1e'')"
    by (simp add: field_keeps_def js_def code_unit_def is_digit_def)
  have k: "field_keeps (js ''1e3'')" "parseFloat (js ''1e3'') = Num 1000"
    by (simp_all add: field_keeps_def parse_defs)
  have t: "parseFloat_text (text_or (input_value typed_player) (Text (js ''NaN''))) = Num (1/20)"
    by (simp add: typed_player_def enter_text_def field_keeps_def parse_defs)
  show ?thesis
    using malformed_input_ignored [of "enter_text [] typed_player" None "js ''1e''" 0 0]
      malformed_input_ignored [of typed_player "Some (Text (js ''2''))" "js ''1e''" 0 "1/20"]
      malformed_input_ignored [of typed_player None "js ''1e3''" 1000 "1/20"]
      a b k t
    by (simp add: clamp_Num)
qed

section \<open>Properties of the reverse-playback engine\<close>

lemma js_rem_nonneg:
  assumes "0 < D" "0 \<le> x"
  shows "0 \<le> js_rem x D \<and> js_rem x D < D"
proof -
  have q: "0 \<le> x / D" using assms by simp
  have eq: "js_rem x D = D * (x / D - of_int \<lfloor>x / D\<rfloor>)"
    using assms q by (simp add: js_rem_def trunc_def algebra_simps)
  have "0 \<le> x / D - of_int \<lfloor>x / D\<rfloor>" "x / D - of_int \<lfloor>x / D\<rfloor> < 1"
    by linarith+
  with assms(1) show ?thesis
    unfolding eq by (simp add: mult_less_cancel_left2 )
qed

lemma js_rem_neg:
  assumes "0 < D" "x < 0"
  shows "- D < js_rem x D \<and> js_rem x D \<le> 0"
proof -
  have "x / D < 0" using assms by (simp add: divide_neg_pos)
  then have q: "\<not> 0 \<le> x / D" by simp
  have eq: "js_rem x D = D * (x / D - of_int \<lceil>x / D\<rceil>)"
    using assms q by (simp add: js_rem_def trunc_def algebra_simps)
  have a: "x / D - of_int \<lceil>x / D\<rceil> \<le> 0" "- 1 < x / D - of_int \<lceil>x / D\<rceil>"
    by linarith+
  have "D * (x / D - of_int \<lceil>x / D\<rceil>) \<le> 0"
    using assms(1) a(1) by (simp add: mult_le_0_iff)
  moreover have "D * (- 1) < D * (x / D - of_int \<lceil>x / D\<rceil>)"
    using assms(1) a(2) by (rule mult_strict_left_mono[rotated])
  ultimately show ?thesis
    unfolding eq by simp
qed

text \<open>
  Claim C2, as amended. In looping reverse playback the position lies in \<open>(0, D]\<close>
  for every duration \<open>D > 0\<close>, whatever the start offset and the elapsed time are (so
  in particular for an offset in \<open>[0, D]\<close> and an elapsed time \<open>\<ge> 0\<close>): a remainder of
  zero is shown as \<open>D\<close>, the end of the track, not as \<open>0\<close>.
\<close>

theorem loop_position_range:
  "0 < D \<Longrightarrow> 0 < reverse_position True s e D \<and> reverse_position True s e D \<le> D"
proof -
  assume D: "0 < D"
  show ?thesis
  proof (cases "0 \<le> s - e")
    case True
    from js_rem_nonneg [OF D True] D show ?thesis
      by (auto simp: reverse_position_def Let_def)
  next
    case False
    then have "s - e < 0" by simp
    from js_rem_neg [OF D this] D show ?thesis
      by (auto simp: reverse_position_def Let_def)
  qed
qed

theorem loop_position_range_witness:
  "(0::real) < 3 \<and> reverse_position True 2 7 3 = 1"
  using loop_position_range [of 3 2 7]
  by (simp add: reverse_position_def js_rem_def trunc_def)

text \<open>
  The claim as stated puts the position in \<open>[0, D)\<close>. A session started from the end
  of a track of duration \<open>2\<close> (start offset \<open>2\<close>) is at position \<open>2\<close> when no time has
  elapsed, which is outside \<open>[0, 2)\<close>.
\<close>

theorem loop_position_counterexample:
  "(0::real) \<le> 0 \<and> (0::real) < 2 \<and> (0::real) \<le> 2 \<and> (2::real) \<le> 2
   \<and> \<not> (0 \<le> reverse_position True 2 0 2 \<and> reverse_position True 2 0 2 < 2)"
  by (simp add: reverse_position_def js_rem_def trunc_def)

lemma reverse_start_fields:
  assumes "tmReverseBuffer p = Some b" "currentTime (audio_el p) \<le> duration b"
  shows "reverseSource (reverse_start t p) = Some (length (ctx_nodes p))"
    and "reverseDuration (reverse_start t p) = duration b"
    and "reverseStartOffset (reverse_start t p) =
           (if 0 < currentTime (audio_el p) then currentTime (audio_el p) else duration b)"
    and "reverseStartCtxTime (reverse_start t p) = t"
    and "reverseCtx (reverse_start t p) = reverseCtx p"
    and "audio_el (reverse_start t p) = audio_el p"
    and "tmReverseBuffer (reverse_start t p) = Some b"
  using assms by (simp_all add: reverse_start_def Let_def update_node_def)

lemma toggle_off_time:
  assumes "reverseSource p \<noteq> None" "0 < reverseDuration p" "reverseCtx p"
  shows "currentTime (audio_el (fst (reverse_click t p))) =
           max 0 (reverseStartOffset p - (t - reverseStartCtxTime p) * rate_or_1 (audio_el p))"
    and "reverseSource (fst (reverse_click t p)) = None"
    and "paused (audio_el (fst (reverse_click t p))) = False"
    and "snd (reverse_click t p) = False"
  using assms by (auto simp: reverse_click_def stopReverse_def Let_def update_node_def)

lemma toggle_on_cached:
  assumes "tmReverseBuffer p = Some b" "reverseSource p = None"
  shows "reverse_click t p =
     (reverse_start t ((stopReverse False t (p\<lparr>audio_el := (audio_el p)\<lparr>paused := True\<rparr>\<rparr>))\<lparr>reverseCtx := True\<rparr>), False)"
  using assms by (simp add: reverse_click_def stopReverse_def Let_def)

lemma stopReverse_False_fields:
  "audio_el (stopReverse False t p) = audio_el p"
  "tmReverseBuffer (stopReverse False t p) = tmReverseBuffer p"
  "reverseCtx (stopReverse False t p) = reverseCtx p"
  by (simp_all add: stopReverse_def Let_def update_node_def split: option.splits)


lemma stopReverse_r2_agrees:
  "(0 < reverseDuration p \<longrightarrow> reverseCtx p) \<Longrightarrow>
   stopReverse_r2 c t p = Inr (stopReverse c t p)"
  by (auto simp: stopReverse_r2_def stopReverse_def Let_def update_node_def
      split: option.splits)

lemma play_keeps_position:
  "currentTime (audio_el (on_play t g p)) = currentTime (audio_el p)"
proof -
  have a: "currentTime (audio_el (applyRate v q)) = currentTime (audio_el q)" for v q
    by (cases "clamp v MIN_RATE MAX_RATE") (simp_all add: applyRate_def syncUI_def Let_def)
  show ?thesis
    by (simp add: on_play_def Let_def a stopReverse_False_fields)
qed

lemma resume_is_start:
  "reverse_click_resume t (Inr b0) p =
     reverse_start t (p\<lparr>tmReverseBuffer := Some (reverse_buffer b0),
                        reverse_runs := reverse_runs p + 1\<rparr>)"
  by (simp add: reverse_click_resume_def)

text \<open>
  Claim C8. Toggling reverse on at context time \<open>t0\<close> and off at \<open>t1\<close>, with nothing
  changing the rate between, leaves the audio element at
  \<open>max(0, reverseStartOffset - (t1 - t0) * rate)\<close>, where \<open>rate\<close> is the element's
  \<open>playbackRate\<close> (or \<open>1\<close> when that is \<open>0\<close>, the rate the reverse source then plays
  at); toggling off at once leaves it at \<open>reverseStartOffset\<close>, which is the position
  the element had when reverse was toggled on, or the duration when that position
  was \<open>0\<close>. The first part is for a toggle-on
  that finds the reversed buffer cached, the second for one that resumes after the
  decoding. The buffer has a positive duration and the element's position does not
  exceed it, so that \<open>start\<close> accepts the offset.
\<close>

theorem reverse_round_trip:
  "(tmReverseBuffer p = Some b \<and> reverseSource p = None \<and> 0 < duration b
      \<and> currentTime (audio_el p) \<le> duration b \<longrightarrow>
      reverseSource (fst (reverse_click t0 p)) \<noteq> None
      \<and> reverseStartOffset (fst (reverse_click t0 p)) =
          (if 0 < currentTime (audio_el p) then currentTime (audio_el p) else duration b)
      \<and> currentTime (audio_el (fst (reverse_click t1 (fst (reverse_click t0 p))))) =
          max 0 (reverseStartOffset (fst (reverse_click t0 p))
                   - (t1 - t0) * (if playbackRate (audio_el p) = 0 then 1
                                   else playbackRate (audio_el p)))
      \<and> currentTime (audio_el (fst (reverse_click t0 (fst (reverse_click t0 p))))) =
          reverseStartOffset (fst (reverse_click t0 p)))
   \<and> (reverseCtx q \<and> 0 < duration b0 \<and> currentTime (audio_el q) \<le> duration b0 \<longrightarrow>
      reverseSource (reverse_click_resume t0 (Inr b0) q) \<noteq> None
      \<and> reverseStartOffset (reverse_click_resume t0 (Inr b0) q) =
          (if 0 < currentTime (audio_el q) then currentTime (audio_el q) else duration b0)
      \<and> currentTime (audio_el (fst (reverse_click t1 (reverse_click_resume t0 (Inr b0) q)))) =
          max 0 (reverseStartOffset (reverse_click_resume t0 (Inr b0) q)
                   - (t1 - t0) * (if playbackRate (audio_el q) = 0 then 1
                                   else playbackRate (audio_el q)))
      \<and> currentTime (audio_el (fst (reverse_click t0 (reverse_click_resume t0 (Inr b0) q)))) =
          reverseStartOffset (reverse_click_resume t0 (Inr b0) q))"
proof (intro conjI impI)
  assume a: "tmReverseBuffer p = Some b \<and> reverseSource p = None \<and> 0 < duration b
      \<and> currentTime (audio_el p) \<le> duration b"
  define p0 where "p0 = (stopReverse False t0 (p\<lparr>audio_el := (audio_el p)\<lparr>paused := True\<rparr>\<rparr>))\<lparr>reverseCtx := True\<rparr>"
  have on: "fst (reverse_click t0 p) = reverse_start t0 p0"
    using a by (simp add: toggle_on_cached p0_def)
  have p0: "tmReverseBuffer p0 = Some b" "currentTime (audio_el p0) = currentTime (audio_el p)"
    "reverseCtx p0" "playbackRate (audio_el p0) = playbackRate (audio_el p)"
    using a by (simp_all add: p0_def stopReverse_False_fields)
  have le: "currentTime (audio_el p0) \<le> duration b"
    using a p0 by simp
  note f = reverse_start_fields [OF p0(1) le, of t0]
  have pos: "0 \<le> reverseStartOffset (reverse_start t0 p0)"
    using a f(3) by (simp add: p0)
  have live: "reverseSource (reverse_start t0 p0) \<noteq> None" "0 < reverseDuration (reverse_start t0 p0)"
    "reverseCtx (reverse_start t0 p0)"
    using f a p0 by simp_all
  show "reverseSource (fst (reverse_click t0 p)) \<noteq> None"
    using live by (simp add: on)
  show "reverseStartOffset (fst (reverse_click t0 p)) =
          (if 0 < currentTime (audio_el p) then currentTime (audio_el p) else duration b)"
    using f(3) by (simp add: on p0)
  show "currentTime (audio_el (fst (reverse_click t1 (fst (reverse_click t0 p))))) =
          max 0 (reverseStartOffset (fst (reverse_click t0 p))
                   - (t1 - t0) * (if playbackRate (audio_el p) = 0 then 1
                                   else playbackRate (audio_el p)))"
    using toggle_off_time(1) [OF live, of t1] f by (simp add: on p0 rate_or_1_def)
  show "currentTime (audio_el (fst (reverse_click t0 (fst (reverse_click t0 p))))) =
          reverseStartOffset (fst (reverse_click t0 p))"
    using toggle_off_time(1) [OF live, of t0] f pos by (simp add: on)
next
  assume a: "reverseCtx q \<and> 0 < duration b0 \<and> currentTime (audio_el q) \<le> duration b0"
  define p0 where "p0 = q\<lparr>tmReverseBuffer := Some (reverse_buffer b0),
                        reverse_runs := reverse_runs q + 1\<rparr>"
  have on: "reverse_click_resume t0 (Inr b0) q = reverse_start t0 p0"
    by (simp add: resume_is_start p0_def)
  have p0: "tmReverseBuffer p0 = Some (reverse_buffer b0)" "audio_el p0 = audio_el q"
    "reverseCtx p0" "duration (reverse_buffer b0) = duration b0"
    using a by (simp_all add: p0_def reverse_buffer_def)
  have le: "currentTime (audio_el p0) \<le> duration (reverse_buffer b0)"
    using a p0 by simp
  note f = reverse_start_fields [OF p0(1) le, of t0]
  have pos: "0 \<le> reverseStartOffset (reverse_start t0 p0)"
    using a f(3) by (simp add: p0)
  have live: "reverseSource (reverse_start t0 p0) \<noteq> None" "0 < reverseDuration (reverse_start t0 p0)"
    "reverseCtx (reverse_start t0 p0)"
    using f a p0 by simp_all
  show "reverseSource (reverse_click_resume t0 (Inr b0) q) \<noteq> None"
    using live by (simp add: on)
  show "reverseStartOffset (reverse_click_resume t0 (Inr b0) q) =
          (if 0 < currentTime (audio_el q) then currentTime (audio_el q) else duration b0)"
    using f(3) by (simp add: on p0)
  show "currentTime (audio_el (fst (reverse_click t1 (reverse_click_resume t0 (Inr b0) q)))) =
          max 0 (reverseStartOffset (reverse_click_resume t0 (Inr b0) q)
                   - (t1 - t0) * (if playbackRate (audio_el q) = 0 then 1
                                   else playbackRate (audio_el q)))"
    using toggle_off_time(1) [OF live, of t1] f by (simp add: on p0 rate_or_1_def)
  show "currentTime (audio_el (fst (reverse_click t0 (reverse_click_resume t0 (Inr b0) q)))) =
          reverseStartOffset (reverse_click_resume t0 (Inr b0) q)"
    using toggle_off_time(1) [OF live, of t0] f pos by (simp add: on)
qed

lemma cached_player_facts:
  "tmReverseBuffer cached_player = Some (reverse_buffer demo_buffer)"
  "reverseSource cached_player = None"
  "duration (reverse_buffer demo_buffer) = 3"
  "currentTime (audio_el cached_player) = 2"
  "playbackRate (audio_el cached_player) = 2"
  "reverseCtx cached_player"
  "duration demo_buffer = 3"
  by (simp_all add: cached_player_def rate_defs new_player_def idle_audio_def reverse_buffer_def
      demo_buffer_def rate_or_1_def)

theorem reverse_round_trip_witness:
  "tmReverseBuffer cached_player = Some (reverse_buffer demo_buffer)
   \<and> reverseSource cached_player = None
   \<and> 0 < duration (reverse_buffer demo_buffer)
   \<and> currentTime (audio_el cached_player) \<le> duration (reverse_buffer demo_buffer)
   \<and> playbackRate (audio_el cached_player) = 2
   \<and> reverseStartOffset (fst (reverse_click 10 cached_player)) = 2
   \<and> currentTime (audio_el (fst (reverse_click (21/2) (fst (reverse_click 10 cached_player))))) = 1
   \<and> currentTime (audio_el (fst (reverse_click 10 (fst (reverse_click 10 cached_player))))) = 2
   \<and> currentTime (audio_el (fst (reverse_click 15 (fst (reverse_click 10 cached_player))))) = 0
   \<and> reverseCtx cached_player \<and> 0 < duration demo_buffer
   \<and> currentTime (audio_el cached_player) \<le> duration demo_buffer
   \<and> currentTime (audio_el (fst (reverse_click (21/2)
         (reverse_click_resume 10 (Inr demo_buffer) cached_player)))) = 1"
  using reverse_round_trip [of cached_player "reverse_buffer demo_buffer" 10 "21/2" cached_player demo_buffer]
    reverse_round_trip [of cached_player "reverse_buffer demo_buffer" 10 15 cached_player demo_buffer]
  by (simp add: cached_player_facts)

lemmas engine_defs =
  reverse_click_def reverse_click_resume_def reverse_start_def stopReverse_def
  update_node_def live_sources_def reverse_buffer_def rate_or_1_def Let_def
  stop_click_def on_play_def stopLocal_click_def

lemma pending_player_eq:
  "pending_player =
     (enhanced_player idle_audio (Some 100))\<lparr>reverseCtx := True, fetch_calls := 1\<rparr>"
  by (simp add: pending_player_def engine_defs rate_defs new_player_def idle_audio_def)

text \<open>
  Claim C3, evaluated on the code. A first click on the reverse button is suspended
  at the \<open>await\<close>. A click on the site's stop button then finds no source to stop. When
  the decoding settles, the handler caches the reversed buffer and goes on to create
  and start a source all the same: one source is live and the button is active. The
  same happens after a \<open>play\<close> event or a click on the local stop button.
\<close>

theorem superseded_start_still_renders:
  "snd (reverse_click 0 (enhanced_player idle_audio (Some 100))) = True
   \<and> reverseSource (handle 1 None StopClick pending_player) = None
   \<and> tmReverseBuffer (reverse_click_resume 2 (Inr demo_buffer) (handle 1 None StopClick pending_player))
       = Some (reverse_buffer demo_buffer)
   \<and> reverseSource (reverse_click_resume 2 (Inr demo_buffer) (handle 1 None StopClick pending_player))
       = Some 0
   \<and> live_sources (reverse_click_resume 2 (Inr demo_buffer) (handle 1 None StopClick pending_player)) = 1
   \<and> reverse_active (reverse_click_resume 2 (Inr demo_buffer) (handle 1 None StopClick pending_player))
   \<and> live_sources (reverse_click_resume 2 (Inr demo_buffer) (handle 1 None Play pending_player)) = 1
   \<and> live_sources (reverse_click_resume 2 (Inr demo_buffer) (handle 1 None StopLocalClick pending_player)) = 1"
  by (simp add: pending_player_eq engine_defs rate_defs new_player_def idle_audio_def
      demo_buffer_def input_rate_def parse_defs)

text \<open>
  Claim C4, evaluated on the code. Two clicks on the reverse button of a looping
  player, the second before the first decoding has settled: both handlers are
  suspended, each having called \<open>stopReverse()\<close> when there was nothing to stop. The
  first resumption starts a source; the second starts another without stopping the
  first, so two sources are live. \<open>reverseSource\<close> refers to the second only, and a
  later toggle-off stops that one and leaves the first playing.
\<close>

theorem overlapping_toggles_two_live_sources:
  "snd (reverse_click 0 looping_player) = True
   \<and> snd (reverse_click 1 (fst (reverse_click 0 looping_player))) = True
   \<and> live_sources (reverse_click_resume 2 (Inr demo_buffer)
         (fst (reverse_click 1 (fst (reverse_click 0 looping_player))))) = 1
   \<and> map playing (ctx_nodes (overlapped_player looping_player)) = [True, True]
   \<and> live_sources (overlapped_player looping_player) = 2
   \<and> reverseSource (overlapped_player looping_player) = Some 1
   \<and> live_sources (fst (reverse_click 4 (overlapped_player looping_player))) = 1"
  by (simp add: overlapped_player_def looping_player_def engine_defs rate_defs new_player_def
      idle_audio_def demo_buffer_def)

text \<open>
  Claim C5, evaluated on the code. In the same run both handlers found the cache
  empty before they were suspended, so the source is fetched twice and decoded and
  reversed twice.
\<close>

theorem overlapping_toggles_decode_twice:
  "fetch_calls (overlapped_player (enhanced_player idle_audio None)) = 2
   \<and> reverse_runs (overlapped_player (enhanced_player idle_audio None)) = 2"
  by (simp add: overlapped_player_def engine_defs rate_defs new_player_def idle_audio_def
      demo_buffer_def)

subsection \<open>One session per player, as long as no start is pending\<close>

text \<open>
  Every handler keeps \<open>single_session\<close>, and so does the resumption of a suspended
  click that finds no source referred to. A click that finds the buffer cached does
  not suspend and does not fetch or decode.
\<close>

lemma count_stop:
  "i < length xs \<Longrightarrow>
   length (filter playing (xs[i := (xs ! i)\<lparr>playing := False\<rparr>])) =
   length (filter playing xs) - (if playing (xs ! i) then 1 else 0)"
proof (induction xs arbitrary: i)
  case Nil
  then show ?case by simp
next
  case (Cons x xs)
  show ?case
  proof (cases i)
    case 0
    then show ?thesis by simp
  next
    case (Suc k)
    with Cons.prems have k: "k < length xs" by simp
    have "playing (xs ! k) \<Longrightarrow> 0 < length (filter playing xs)"
      using k by (metis filter_empty_conv length_greater_0_conv nth_mem)
    then show ?thesis
      using Cons.IH [OF k] Suc by auto
  qed
qed

lemma count_same:
  "(\<And>n. playing (f n) = playing n) \<Longrightarrow>
   length (filter playing (xs[i := f (xs ! i)])) = length (filter playing xs)"
proof (induction xs arbitrary: i)
  case Nil
  then show ?case by simp
next
  case (Cons x xs)
  then show ?case by (cases i) simp_all
qed

lemma single_session_le: "single_session p \<Longrightarrow> live_sources p \<le> 1"
  by (auto simp: single_session_def split: option.splits if_splits)

lemma stopReverse_nodes:
  "reverseSource (stopReverse c t p) = None"
  "ctx_nodes (stopReverse c t p) =
     (case reverseSource p of None \<Rightarrow> ctx_nodes p
      | Some i \<Rightarrow> (ctx_nodes p)[i := (ctx_nodes p ! i)\<lparr>playing := False\<rparr>])"
  by (simp_all add: stopReverse_def Let_def update_node_def split: option.splits)

lemma single_session_stopReverse:
  assumes "single_session p"
  shows "single_session (stopReverse c t p)" and "live_sources (stopReverse c t p) = 0"
proof -
  have "live_sources (stopReverse c t p) = 0"
  proof (cases "reverseSource p")
    case None
    with assms show ?thesis
      by (simp add: single_session_def live_sources_def stopReverse_nodes)
  next
    case (Some i)
    with assms have i: "i < length (ctx_nodes p)"
      and l: "length (filter playing (ctx_nodes p)) = (if playing (ctx_nodes p ! i) then 1 else 0)"
      by (simp_all add: single_session_def live_sources_def)
    show ?thesis
      using count_stop [OF i] l by (simp add: live_sources_def stopReverse_nodes Some)
  qed
  then show "live_sources (stopReverse c t p) = 0" .
  then show "single_session (stopReverse c t p)"
    by (simp add: single_session_def stopReverse_nodes)
qed


lemma single_session_reverse_start:
  "single_session p \<Longrightarrow> reverseSource p = None \<Longrightarrow> single_session (reverse_start t p)"
  by (auto simp: single_session_def live_sources_def reverse_start_def stopReverse_def
      update_node_def Let_def nth_append split: option.splits)

lemma single_session_fields:
  "single_session (p\<lparr>audio_el := a\<rparr>) = single_session p"
  "single_session (p\<lparr>reverseCtx := c\<rparr>) = single_session p"
  "single_session (p\<lparr>fetch_calls := n\<rparr>) = single_session p"
  "single_session (p\<lparr>reverse_runs := m\<rparr>) = single_session p"
  "single_session (p\<lparr>tmReverseBuffer := b\<rparr>) = single_session p"
  "single_session (p\<lparr>indicator_x := x\<rparr>) = single_session p"
  "single_session (p\<lparr>reverseRAF := f\<rparr>) = single_session p"
  "single_session (p\<lparr>input_value := v\<rparr>) = single_session p"
  "single_session (p\<lparr>active_btns := bs\<rparr>) = single_session p"
  by (simp_all add: single_session_def live_sources_def cong: option.case_cong)

lemma stopReverse_source: "reverseSource (stopReverse c t p) = None"
  by (rule stopReverse_nodes)

lemma single_session_click:
  assumes "single_session p"
  shows "single_session (fst (reverse_click t p))"
proof (cases "reverseSource p")
  case (Some i)
  then show ?thesis
    using single_session_stopReverse(1) [OF assms, of True t]
    by (simp add: reverse_click_def Let_def single_session_fields)
next
  case None
  define q where "q = (stopReverse False t (p\<lparr>audio_el := (audio_el p)\<lparr>paused := True\<rparr>\<rparr>))\<lparr>reverseCtx := True\<rparr>"
  have q: "single_session q" "reverseSource q = None"
    using single_session_stopReverse(1) [of "p\<lparr>audio_el := (audio_el p)\<lparr>paused := True\<rparr>\<rparr>" False t] assms
    by (simp_all add: q_def single_session_fields stopReverse_source)
  have "fst (reverse_click t p) =
      (case tmReverseBuffer q of None \<Rightarrow> q\<lparr>fetch_calls := fetch_calls q + 1\<rparr>
       | Some _ \<Rightarrow> reverse_start t q)"
    using None by (simp add: reverse_click_def Let_def q_def split: option.splits)
  then show ?thesis
    using q single_session_reverse_start [OF q, of t]
    by (simp add: single_session_fields split: option.splits)
qed

lemma single_session_resume:
  assumes "single_session p" "reverseSource p = None"
  shows "single_session (reverse_click_resume t res p)"
proof (cases res)
  case (Inl e)
  then show ?thesis
    using single_session_stopReverse(1) [OF assms(1)] by (simp add: reverse_click_resume_def)
next
  case (Inr b)
  have "single_session (p\<lparr>tmReverseBuffer := Some (reverse_buffer b), reverse_runs := reverse_runs p + 1\<rparr>)"
    using assms(1) by (simp add: single_session_fields)
  moreover have "reverseSource (p\<lparr>tmReverseBuffer := Some (reverse_buffer b), reverse_runs := reverse_runs p + 1\<rparr>) = None"
    using assms(2) by simp
  ultimately show ?thesis
    using Inr by (simp add: reverse_click_resume_def single_session_reverse_start)
qed

lemma single_session_applyRate: "single_session (applyRate v p) = single_session p"
  by (simp add: applyRate_def syncUI_def Let_def single_session_fields)

lemma single_session_step: "single_session p \<Longrightarrow> single_session (step t p)"
  using single_session_stopReverse(1) [of "p\<lparr>indicator_x := x\<rparr>" for x]
  by (auto simp: step_def Let_def single_session_fields split: option.splits)

lemma single_session_ratechange: "single_session p \<Longrightarrow> single_session (on_ratechange p)"
proof -
  assume a: "single_session p"
  have "single_session (case reverseSource p of None \<Rightarrow> p
             | Some i \<Rightarrow> update_node i (\<lambda>n. n\<lparr>node_rate := rate_or_1 (audio_el p)\<rparr>) p)"
  proof (cases "reverseSource p")
    case None
    with a show ?thesis by simp
  next
    case (Some i)
    with a have i: "i < length (ctx_nodes p)" by (simp add: single_session_def)
    show ?thesis
      using a Some i count_same [of "\<lambda>n. n\<lparr>node_rate := rate_or_1 (audio_el p)\<rparr>" "ctx_nodes p" i]
      by (simp add: single_session_def live_sources_def update_node_def)
  qed
  then show ?thesis
    by (simp add: on_ratechange_def syncUI_def Let_def single_session_fields)
qed

lemma single_session_handle: "single_session p \<Longrightarrow> single_session (handle t g e p)"
proof (cases e)
  case Play
  assume "single_session p"
  then show ?thesis
    using Play single_session_stopReverse(1) [of p False t]
    by (simp add: on_play_def Let_def single_session_applyRate)
next
  case StopClick
  assume "single_session p"
  then show ?thesis
    using StopClick by (simp add: stop_click_def single_session_stopReverse)
next
  case StopLocalClick
  assume "single_session p"
  then show ?thesis
    using StopLocalClick by (simp add: stopLocal_click_def Let_def single_session_stopReverse single_session_fields)
next
  case RateChange
  assume "single_session p"
  then show ?thesis
    using RateChange by (simp add: single_session_ratechange)
next
  case Ended
  assume "single_session p"
  then show ?thesis
    using Ended by (simp add: on_ended_def single_session_stopReverse)
next
  case Frame
  assume "single_session p"
  then show ?thesis
    using Frame by (simp add: single_session_step)
qed

lemma single_session_new: "single_session (new_player a w)"
  by (simp add: single_session_def live_sources_def new_player_def)

lemma cached_click_no_decode:
  assumes "tmReverseBuffer p = Some b"
  shows "snd (reverse_click t p) = False"
    and "tmReverseBuffer (fst (reverse_click t p)) = Some b"
    and "fetch_calls (fst (reverse_click t p)) = fetch_calls p"
    and "reverse_runs (fst (reverse_click t p)) = reverse_runs p"
  using assms
  by (auto simp: reverse_click_def reverse_start_def stopReverse_def update_node_def Let_def
      split: option.splits)


section \<open>Properties of the page\<close>

lemma apply_to_all_eq:
  assumes "i < length (elements pg)" "elements pg ! i = Enhanced p"
  shows "apply_to_all i pg =
     pg\<lparr>GLOBAL_RATE := Some (Num (rate_or_1 (audio_el p))),
        store := saveRate (Num (rate_or_1 (audio_el p))),
        elements := map (\<lambda>(j, pl). if j = i then pl else receive_rate (Num (rate_or_1 (audio_el p))) pl)
                       (enumerate 0 (elements pg))\<rparr>"
  using assms by (simp add: apply_to_all_def Let_def)

lemma applyRate_rate: "playbackRate (audio_el (applyRate (Num r) q)) = min 16 (max (1/10) r)"
  using playbackRate_applyRate [of "Num r" q] by (simp add: clamp_Num)

lemma enhance_new_override:
  assumes "GLOBAL_RATE pg = Some (Num r)"
  shows "element_rate (last (elements (add_player (Bare (Some a) w) pg)))
           = Some (min 16 (max (1/10) r))"
    and "element_rate (last (elements (add_player_r2 (Bare (Some a) w) pg)))
           = Some (min 16 (max (1/10) r))"
  using assms
  by (simp_all add: add_player_def add_player_r2_def enhancePlayer_def enhancePlayer_r2_def
      getEffectiveRate_def nth_append applyRate_rate)

text \<open>
  Claim C6, as amended. The apply-to-all button of an enhanced player reads the
  player's rate, taking \<open>1\<close> when it is \<open>0\<close>; call it \<open>r\<close>. It makes \<open>r\<close> the
  session override and the persisted default (which a later page load reads back
  clamped), leaves the player itself as it is, and passes \<open>r\<close> to every other
  element \<open>j\<close> of the document: an enhanced one applies it through its hook
  \<open>applyRate\<close> and ends at \<open>r\<close> clamped to \<open>[0.1, 16]\<close>, one without the hook has
  \<open>r\<close> assigned to its audio element as it is, one without audio is left alone. A
  player enhanced afterwards starts at the override clamped to \<open>[0.1, 16]\<close> in
  either revision, whatever the store holds by then. When the source's rate lies in
  \<open>[0.1, 16]\<close>, \<open>r\<close> and \<open>r\<close> clamped are the source's rate.
\<close>

theorem broadcast_rate:
  assumes "i < length (elements pg)" and "elements pg ! i = Enhanced p"
    and "r = (if playbackRate (audio_el p) = 0 then 1 else playbackRate (audio_el p))"
  shows "GLOBAL_RATE (apply_to_all i pg) = Some (Num r)
    \<and> store (apply_to_all i pg) = saveRate (Num r)
    \<and> loadRate (store (apply_to_all i pg)) = Num (min 16 (max (1/10) r))
    \<and> length (elements (apply_to_all i pg)) = length (elements pg)
    \<and> elements (apply_to_all i pg) ! i = Enhanced p
    \<and> (j < length (elements pg) \<and> j \<noteq> i \<and> elements pg ! j = Enhanced q \<longrightarrow>
         elements (apply_to_all i pg) ! j = Enhanced (applyRate (Num r) q)
         \<and> element_rate (elements (apply_to_all i pg) ! j) = Some (min 16 (max (1/10) r)))
    \<and> (j < length (elements pg) \<and> j \<noteq> i \<and> elements pg ! j = Bare (Some b) v \<longrightarrow>
         elements (apply_to_all i pg) ! j = Bare (Some (b\<lparr>playbackRate := r\<rparr>)) v)
    \<and> (j < length (elements pg) \<and> j \<noteq> i \<and> elements pg ! j = Bare None v \<longrightarrow>
         elements (apply_to_all i pg) ! j = Bare None v)
    \<and> element_rate (last (elements
           (add_player (Bare (Some a) w) ((apply_to_all i pg)\<lparr>store := st\<rparr>))))
         = Some (min 16 (max (1/10) r))
    \<and> element_rate (last (elements
           (add_player_r2 (Bare (Some a) w) ((apply_to_all i pg)\<lparr>store := st\<rparr>))))
         = Some (min 16 (max (1/10) r))
    \<and> (1/10 \<le> playbackRate (audio_el p) \<and> playbackRate (audio_el p) \<le> 16 \<longrightarrow>
         r = playbackRate (audio_el p) \<and> min 16 (max (1/10) r) = playbackRate (audio_el p))"
proof -
  have r1: "rate_or_1 (audio_el p) = r"
    using assms(3) by (simp add: rate_or_1_def)
  note eq = apply_to_all_eq [OF assms(1,2), unfolded r1]
  have g: "GLOBAL_RATE (apply_to_all i pg) = Some (Num r)"
    and s: "store (apply_to_all i pg) = saveRate (Num r)"
    and len: "length (elements (apply_to_all i pg)) = length (elements pg)"
    by (simp_all add: eq)
  have l: "loadRate (store (apply_to_all i pg)) = Num (min 16 (max (1/10) r))"
    by (simp add: s saveRate_def loadRate_def getItem_or_def clamp_Num)
  have n: "elements (apply_to_all i pg) ! k
      = (if k = i then elements pg ! k else receive_rate (Num r) (elements pg ! k))"
    if "k < length (elements pg)" for k
    using that by (simp add: eq nth_enumerate_eq)
  have self: "elements (apply_to_all i pg) ! i = Enhanced p"
    using n [OF assms(1)] assms(2) by simp
  have enh: "elements (apply_to_all i pg) ! j = Enhanced (applyRate (Num r) q)
         \<and> element_rate (elements (apply_to_all i pg) ! j) = Some (min 16 (max (1/10) r))"
    if "j < length (elements pg) \<and> j \<noteq> i \<and> elements pg ! j = Enhanced q"
    using that n [of j] by (simp add: applyRate_rate)
  have bare: "elements (apply_to_all i pg) ! j = Bare (Some (b\<lparr>playbackRate := r\<rparr>)) v"
    if "j < length (elements pg) \<and> j \<noteq> i \<and> elements pg ! j = Bare (Some b) v"
    using that n [of j] by simp
  have none: "elements (apply_to_all i pg) ! j = Bare None v"
    if "j < length (elements pg) \<and> j \<noteq> i \<and> elements pg ! j = Bare None v"
    using that n [of j] by simp
  have g': "GLOBAL_RATE ((apply_to_all i pg)\<lparr>store := st\<rparr>) = Some (Num r)"
    by (simp add: g)
  have inr: "r = playbackRate (audio_el p) \<and> min 16 (max (1/10) r) = playbackRate (audio_el p)"
    if "1/10 \<le> playbackRate (audio_el p) \<and> playbackRate (audio_el p) \<le> 16"
    using that assms(3) by auto
  show ?thesis
    using g s l len self enh bare none enhance_new_override [OF g'] inr by blast
qed

lemma demo_page_facts:
  "length (elements (demo_page_at r)) = 5"
  "elements (demo_page_at r) ! 0 = Enhanced (rate_set_outside r (enhanced_player idle_audio None))"
  "playbackRate (audio_el (rate_set_outside r (enhanced_player idle_audio None))) = r"
  "elements (demo_page_at r) ! 2 = Enhanced (applyRate (Num 2) (enhanced_player idle_audio None))"
  "elements (demo_page_at r) ! 3 = Bare (Some idle_audio) None"
  "playbackRate (audio_el (applyRate (Num 2) (enhanced_player idle_audio None))) = 2"
  by (simp_all add: demo_page_at_def rate_set_outside_def on_ratechange_def rate_defs
      new_player_def idle_audio_def split: option.splits)

theorem broadcast_rate_witness:
  "0 < length (elements (demo_page_at 20))
   \<and> elements (demo_page_at 20) ! 0 = Enhanced (rate_set_outside 20 (enhanced_player idle_audio None))
   \<and> playbackRate (audio_el (rate_set_outside 20 (enhanced_player idle_audio None))) = 20
   \<and> GLOBAL_RATE (apply_to_all 0 (demo_page_at 20)) = Some (Num 20)
   \<and> store (apply_to_all 0 (demo_page_at 20)) = Some (NumText (Num 20))
   \<and> loadRate (store (apply_to_all 0 (demo_page_at 20))) = Num 16
   \<and> 2 < length (elements (demo_page_at 20)) \<and> (2::nat) \<noteq> 0
   \<and> elements (demo_page_at 20) ! 2 = Enhanced (applyRate (Num 2) (enhanced_player idle_audio None))
   \<and> element_rate (elements (apply_to_all 0 (demo_page_at 20)) ! 2) = Some 16
   \<and> 3 < length (elements (demo_page_at 20)) \<and> (3::nat) \<noteq> 0
   \<and> elements (demo_page_at 20) ! 3 = Bare (Some idle_audio) None
   \<and> elements (apply_to_all 0 (demo_page_at 20)) ! 3
        = Bare (Some (idle_audio\<lparr>playbackRate := 20\<rparr>)) None
   \<and> element_rate (last (elements
          (add_player (Bare (Some idle_audio) None)
             ((apply_to_all 0 (demo_page_at 20))\<lparr>store := Some (Text (js ''8''))\<rparr>)))) = Some 16
   \<and> playbackRate (audio_el (rate_set_outside 4 (enhanced_player idle_audio None))) = 4
   \<and> GLOBAL_RATE (apply_to_all 0 (demo_page_at 4)) = Some (Num 4)
   \<and> element_rate (elements (apply_to_all 0 (demo_page_at 4)) ! 2) = Some 4
   \<and> element_rate (last (elements
          (add_player (Bare (Some idle_audio) None)
             ((apply_to_all 0 (demo_page_at 4))\<lparr>store := Some (Text (js ''8''))\<rparr>)))) = Some 4"
proof -
  note f = demo_page_facts
  have i: "0 < length (elements (demo_page_at r))" for r
    by (simp add: f)
  have r20: "(20::real) = (if playbackRate (audio_el (rate_set_outside 20 (enhanced_player idle_audio None))) = 0
                 then 1 else playbackRate (audio_el (rate_set_outside 20 (enhanced_player idle_audio None))))"
    and r4: "(4::real) = (if playbackRate (audio_el (rate_set_outside 4 (enhanced_player idle_audio None))) = 0
                 then 1 else playbackRate (audio_el (rate_set_outside 4 (enhanced_player idle_audio None))))"
    by (simp_all add: f)
  note a1 = broadcast_rate [OF i f(2) r20, of 2 "applyRate (Num 2) (enhanced_player idle_audio None)" idle_audio None
      idle_audio None "Some (Text (js ''8''))"]
  note a3 = broadcast_rate [OF i f(2) r20, of 3 "applyRate (Num 2) (enhanced_player idle_audio None)" idle_audio None
      idle_audio None "Some (Text (js ''8''))"]
  note b1 = broadcast_rate [OF i f(2) r4, of 2 "applyRate (Num 2) (enhanced_player idle_audio None)" idle_audio None
      idle_audio None "Some (Text (js ''8''))"]
  show ?thesis
    using a1 a3 b1 by (simp add: f saveRate_def applyRate_rate)
qed

text \<open>
  The claim as stated lets every other instance, and every instance initialised
  later, end at the source's rate. With the source's rate set to \<open>20\<close> from outside,
  the override is \<open>20\<close>, but the enhanced player that was at \<open>2\<close> ends at \<open>16\<close> and a
  player added afterwards starts at \<open>16\<close>. With the source's rate at \<open>0\<close>, the
  override and the other players' rate are \<open>1\<close>.
\<close>

theorem broadcast_rate_counterexample:
  "element_rate (elements (demo_page_at 20) ! 0) = Some 20
   \<and> element_rate (elements (demo_page_at 20) ! 2) = Some 2
   \<and> element_rate (elements (apply_to_all 0 (demo_page_at 20)) ! 2) = Some 16
   \<and> element_rate (elements (apply_to_all 0 (demo_page_at 20)) ! 2) \<noteq> Some 20
   \<and> GLOBAL_RATE (apply_to_all 0 (demo_page_at 20)) = Some (Num 20)
   \<and> element_rate (last (elements
          (add_player (Bare (Some idle_audio) None) (apply_to_all 0 (demo_page_at 20))))) = Some 16
   \<and> element_rate (elements (demo_page_at 0) ! 0) = Some 0
   \<and> GLOBAL_RATE (apply_to_all 0 (demo_page_at 0)) = Some (Num 1)
   \<and> element_rate (elements (apply_to_all 0 (demo_page_at 0)) ! 2) = Some 1"
  by (simp add: demo_page_at_def rate_set_outside_def on_ratechange_def rate_defs
      new_player_def idle_audio_def apply_to_all_def rate_or_1_def saveRate_def
      add_player_def enhancePlayer_def)

text \<open>
  Claim C7, evaluated on the code. The store holds \<open>1.5\<close> and the page has one
  player. In the first revision the player starts at \<open>1.5\<close> after one read of the
  store; a click on its speed button \<open>2\<close> persists \<open>2\<close> and sets no override; a player
  added afterwards is initialised by a second read of the store and starts at \<open>2\<close>,
  not at the startup value. A page that starts with two players reads the store
  twice. The second revision reads once and starts the added player at \<open>1.5\<close>. In
  both, an absent or unparseable value loads as \<open>1\<close>.
\<close>

theorem first_revision_rereads_store:
  "getItem_calls (startup (Some (Text (js ''1.5''))) one_player) = 1
   \<and> element_rate (elements (startup (Some (Text (js ''1.5''))) one_player) ! 0) = Some (3/2)
   \<and> store (on_player 0 (speed_click 2) (startup (Some (Text (js ''1.5''))) one_player))
        = Some (NumText (Num 2))
   \<and> GLOBAL_RATE (on_player 0 (speed_click 2) (startup (Some (Text (js ''1.5''))) one_player)) = None
   \<and> getItem_calls (add_player (Bare (Some idle_audio) None)
         (on_player 0 (speed_click 2) (startup (Some (Text (js ''1.5''))) one_player))) = 2
   \<and> element_rate (elements (add_player (Bare (Some idle_audio) None)
         (on_player 0 (speed_click 2) (startup (Some (Text (js ''1.5''))) one_player))) ! 1) = Some 2
   \<and> getItem_calls (startup (Some (Text (js ''1.5''))) (one_player @ one_player)) = 2
   \<and> getItem_calls (add_player_r2 (Bare (Some idle_audio) None)
         (on_player 0 (speed_click_r2 2) (startup_r2 (Some (Text (js ''1.5''))) one_player))) = 1
   \<and> element_rate (elements (add_player_r2 (Bare (Some idle_audio) None)
         (on_player 0 (speed_click_r2 2) (startup_r2 (Some (Text (js ''1.5''))) one_player))) ! 1)
        = Some (3/2)
   \<and> loadRate None = Num 1
   \<and> loadRate (Some (Text (js ''abc''))) = Num 1"
  by (simp add: startup_def startup_r2_def one_player_def enhancePlayer_def enhancePlayer_r2_def
      getEffectiveRate_def add_player_def add_player_r2_def on_player_def speed_click_def
      speed_click_r2_def setRate_def setRate_r2_def applyRate_def syncUI_def saveRate_def
      loadRate_def getItem_or_def clamp_def MIN_RATE_def MAX_RATE_def Let_def
      new_player_def idle_audio_def rate_or_1_def parse_defs upt_rec)


subsection \<open>The rates the script applies stay in range\<close>

text \<open>
  \<open>rates_in_range\<close> holds when the page has been set up and is kept by the
  handlers of the rate controller, so the source of a broadcast plays at a rate in
  range unless something other than the script has changed it.
\<close>

lemma enhanced_player_startup:
  "elements (startup None [Bare (Some a) w]) = [Enhanced (enhanced_player a w)]"
  by (simp add: startup_def enhancePlayer_def loadRate_def getItem_or_def clamp_Num
      parse_defs enhanced_player_def)

lemma applyRate_in_range:
  "v \<noteq> NaN \<Longrightarrow> in_range (Num (playbackRate (audio_el (applyRate v p))))"
  using playbackRate_applyRate [of v p] clamp_range [of v] by simp

lemma in_range_not_NaN: "in_range v \<Longrightarrow> v \<noteq> NaN"
  by (cases v) simp_all

lemma list_all_update:
  "list_all P xs \<Longrightarrow> P x \<Longrightarrow> list_all P (xs[i := x])"
  by (induction xs arbitrary: i) (auto split: nat.splits)

lemma rates_in_range_enhance:
  assumes "rates_in_range pg"
  shows "rates_in_range (enhancePlayer i pg)"
proof -
  have g: "in_range g" if "GLOBAL_RATE pg = Some g" for g
    using assms that by (simp add: rates_in_range_def)
  have "element_in_range (Enhanced (applyRate v (new_player a w)))" if "in_range v" for v a w
    using applyRate_in_range [OF in_range_not_NaN [OF that]] by simp
  then show ?thesis
    using assms g loadRate_in_range [of "store pg"]
    by (auto simp: enhancePlayer_def rates_in_range_def list_all_update
        split: element.splits option.splits)
qed

lemma rates_in_range_fold:
  "rates_in_range pg \<Longrightarrow> rates_in_range (fold enhancePlayer is pg)"
  by (induction "is" arbitrary: pg) (simp_all add: rates_in_range_enhance)

lemma rates_in_range_startup:
  "list_all element_in_range els \<Longrightarrow> rates_in_range (startup st els)"
  unfolding startup_def by (rule rates_in_range_fold) (simp add: rates_in_range_def)

lemma rates_in_range_add_player:
  "rates_in_range pg \<Longrightarrow> element_in_range el \<Longrightarrow> rates_in_range (add_player el pg)"
  unfolding add_player_def by (rule rates_in_range_enhance) (simp add: rates_in_range_def)

lemma rates_in_range_on_player:
  assumes "rates_in_range pg"
    and "\<And>p st. in_range (Num (playbackRate (audio_el p))) \<Longrightarrow>
           in_range (Num (playbackRate (audio_el (fst (h (p, st))))))"
  shows "rates_in_range (on_player i h pg)"
proof (cases "i < length (elements pg)")
  case False
  with assms(1) show ?thesis by (simp add: on_player_def)
next
  case True
  then have "element_in_range (elements pg ! i)"
    using assms(1) by (simp add: rates_in_range_def list_all_length)
  then show ?thesis
    using assms True
    by (auto simp: on_player_def rates_in_range_def Let_def list_all_update split: element.splits)
qed

lemma speed_click_in_range:
  "in_range (Num (playbackRate (audio_el (fst (speed_click r (p, st))))))"
  using setRate_rate [of "Num r" "(p, st)"] clamp_range [of "Num r"]
  by (simp add: speed_click_def)

lemma handleInputEvent_in_range:
  assumes "in_range (Num (playbackRate (audio_el p)))"
  shows "in_range (Num (playbackRate (audio_el (fst (handleInputEvent (p, st))))))"
proof (cases "parseFloat_text (text_or (input_value p) (Text (js ''NaN''))) = NaN")
  case True
  then show ?thesis
    using handleInputEvent_NaN [of "(p, st)"] assms by simp
next
  case False
  then have "handleInputEvent (p, st) =
      setRate (clamp (parseFloat_text (text_or (input_value p) (Text (js ''NaN'')))) MIN_RATE MAX_RATE) (p, st)"
    using handleInputEvent_valid [of "(p, st)"] by simp
  moreover have c: "clamp (parseFloat_text (text_or (input_value p) (Text (js ''NaN'')))) MIN_RATE MAX_RATE \<noteq> NaN"
    using False by (simp add: clamp_NaN)
  ultimately show ?thesis
    using setRate_rate [OF c, of "(p, st)"] clamp_range [OF c] by simp
qed

lemma receive_rate_in_range:
  assumes "in_range v" "element_in_range el"
  shows "element_in_range (receive_rate v el)"
proof (cases el)
  case (Enhanced q)
  then show ?thesis
    using applyRate_in_range [OF in_range_not_NaN [OF assms(1)], of q] by simp
next
  case (Bare a w)
  then show ?thesis by (cases a) simp_all
qed

lemma list_all_indexed_map:
  "list_all P xs \<Longrightarrow> (\<And>j x. P x \<Longrightarrow> P (f j x)) \<Longrightarrow>
   list_all P (map (\<lambda>(j, x). f j x) (enumerate n xs))"
  by (induction xs arbitrary: n) simp_all

lemma rates_in_range_apply_to_all:
  assumes "rates_in_range pg"
  shows "rates_in_range (apply_to_all i pg)"
proof (cases "i < length (elements pg)")
  case False
  with assms show ?thesis by (simp add: apply_to_all_def)
next
  case True
  show ?thesis
  proof (cases "elements pg ! i")
    case (Bare a w)
    with assms True show ?thesis by (simp add: apply_to_all_def)
  next
    case (Enhanced p)
    have "element_in_range (elements pg ! i)"
      using assms True by (simp add: rates_in_range_def list_all_length)
    then have r: "in_range (Num (rate_or_1 (audio_el p)))"
      using Enhanced by (auto simp: rate_or_1_def)
    have "list_all element_in_range
        (map (\<lambda>(j, pl). if j = i then pl else receive_rate (Num (rate_or_1 (audio_el p))) pl)
             (enumerate 0 (elements pg)))"
      using assms receive_rate_in_range [OF r]
      by (intro list_all_indexed_map) (simp_all add: rates_in_range_def)
    then show ?thesis
      using r by (simp add: apply_to_all_eq [OF True Enhanced] rates_in_range_def)
  qed
qed

lemma rates_in_range_source:
  "rates_in_range pg \<Longrightarrow> i < length (elements pg) \<Longrightarrow> elements pg ! i = Enhanced p \<Longrightarrow>
   in_range (Num (playbackRate (audio_el p)))"
  by (auto simp: rates_in_range_def list_all_length)

text \<open>The second revision reads the store once, whatever is enhanced later.\<close>

lemma enhancePlayer_r2_keeps:
  "getItem_calls (enhancePlayer_r2 i pg) = getItem_calls pg"
  "INITIAL_RATE (enhancePlayer_r2 i pg) = INITIAL_RATE pg"
  "store (enhancePlayer_r2 i pg) = store pg"
  by (simp_all add: enhancePlayer_r2_def split: element.splits option.splits)

lemma fold_enhancePlayer_r2_keeps:
  "getItem_calls (fold enhancePlayer_r2 is pg) = getItem_calls pg \<and>
   INITIAL_RATE (fold enhancePlayer_r2 is pg) = INITIAL_RATE pg"
  by (induction "is" arbitrary: pg) (simp_all add: enhancePlayer_r2_keeps)

lemma startup_r2_reads_once:
  "getItem_calls (startup_r2 st els) = 1"
  "INITIAL_RATE (startup_r2 st els) = loadRate st"
  by (simp_all add: startup_r2_def fold_enhancePlayer_r2_keeps)

lemma add_player_r2_no_read:
  "getItem_calls (add_player_r2 el pg) = getItem_calls pg"
  "INITIAL_RATE (add_player_r2 el pg) = INITIAL_RATE pg"
  by (simp_all add: add_player_r2_def enhancePlayer_r2_keeps)

lemma add_player_r2_initial:
  "GLOBAL_RATE pg = None \<Longrightarrow> in_range (INITIAL_RATE pg) \<Longrightarrow>
   last (elements (add_player_r2 (Bare (Some a) w) pg)) =
     Enhanced (applyRate (INITIAL_RATE pg) (new_player a w))"
  by (simp add: add_player_r2_def enhancePlayer_r2_def getEffectiveRate_def nth_append)

lemma loadRate_default:
  "\<not> Number_isFinite (parseFloat_text (getItem_or st (Text (js ''1'')))) \<Longrightarrow> loadRate st = Num 1"
  "loadRate None = Num 1"
  by (simp_all add: loadRate_def getItem_or_def clamp_Num parse_defs)

end
